theory Spec2Isabelle
  imports Main
begin

section \<open>Identifiers, request arguments, tokens\<close>

text \<open>
  Embedding of \<^verbatim>\<open>anthill/login/model/account.py\<close> (class \<^verbatim>\<open>AccountModel\<close>).
  Credentials, account ids, gamespace ids and scopes are Python strings. Request
  arguments are a dictionary from strings to strings.
\<close>

type_synonym credential = string
type_synonym account = string
type_synonym gamespace = string
type_synonym scope = string
type_synonym profile = "(string \<times> string) list"
type_synonym args = "string \<rightharpoonup> string"
type_synonym client_env = "(string \<times> string) list"

text \<open>\<^verbatim>\<open>args.get(key, default)\<close>.\<close>

definition get_default :: "args \<Rightarrow> string \<Rightarrow> string \<Rightarrow> string" where
  "get_default a k d = (case a k of None \<Rightarrow> d | Some v \<Rightarrow> v)"

text \<open>Python truthiness of an optional string: \<^verbatim>\<open>None\<close> and \<^verbatim>\<open>""\<close> are false.\<close>

definition truthy :: "string option \<Rightarrow> bool" where
  "truthy v = (case v of None \<Rightarrow> False | Some x \<Rightarrow> x \<noteq> [])"

text \<open>
  Modelled from the spec: \<^verbatim>\<open>access.parse_account\<close> of the common library, which is not
  part of the sources. The credential grammar is \<^verbatim>\<open>type ":" username\<close>; the parse keeps
  the first colon only.
\<close>

definition parse_account :: "credential \<Rightarrow> string \<times> string" where
  "parse_account c =
     (takeWhile (\<lambda>x. x \<noteq> CHR '':'') c, drop 1 (dropWhile (\<lambda>x. x \<noteq> CHR '':'') c))"

text \<open>
  A decoded access token: the fields \<^verbatim>\<open>AccessToken\<close> exposes to this module
  (\<^verbatim>\<open>.account\<close>, \<^verbatim>\<open>.name\<close>, the gamespace and issuer containers, the scopes, the uuid).
  The signed text and the expiry time are not modelled.
\<close>

record access_token =
  tk_scopes :: "scope set"
  tk_account :: account
  tk_gamespace :: gamespace
  tk_issuer :: "string option"
  tk_name :: credential
  tk_uuid :: nat

text \<open>
  A resolve token: generated with \<^verbatim>\<open>token_only=True\<close>, the scope list
  \<^verbatim>\<open>["resolve_conflict"]\<close>, the gamespace container only (no account), and the credential
  under conflict as its name.
\<close>

record resolve_token =
  rt_scopes :: "scope list"
  rt_gamespace :: gamespace
  rt_name :: credential
  rt_uuid :: nat

section \<open>Errors\<close>

record conflict_side =
  side_account :: account
  side_credential :: credential
  side_profile :: "profile option"

datatype accounts_payload =
    Conflict conflict_side conflict_side
  | Summary "(account \<times> profile) list"

text \<open>
  The keyword arguments of \<^verbatim>\<open>AuthenticationError(code, result, **other)\<close> that this
  module uses: \<^verbatim>\<open>info\<close>, \<^verbatim>\<open>resolve_token\<close>, \<^verbatim>\<open>accounts\<close>, \<^verbatim>\<open>credential\<close>, \<^verbatim>\<open>error\<close>.
\<close>

record error_fields =
  err_info :: "string option"
  err_resolve_token :: "resolve_token option"
  err_accounts :: "accounts_payload option"
  err_credential :: "credential option"
  err_error :: "int option"

definition no_fields :: error_fields where
  "no_fields = \<lparr>err_info = None, err_resolve_token = None, err_accounts = None,
                err_credential = None, err_error = None\<rparr>"

definition info_only :: "string \<Rightarrow> error_fields" where
  "info_only m = no_fields\<lparr>err_info := Some m\<rparr>"

text \<open>
  \<^verbatim>\<open>AuthenticationError\<close> carries the numeric code and the \<^verbatim>\<open>result_id\<close>; the other
  constructors are the Python exceptions that leave the module uncaught.
\<close>

datatype error =
    AuthenticationError int string error_fields
  | AccountError string
  | TypeError
  | KeyError string

definition is_auth_error :: "int \<Rightarrow> string \<Rightarrow> (error + 'a) \<Rightarrow> bool" where
  "is_auth_error c rid r =
     (case r of Inl (AuthenticationError c' rid' f) \<Rightarrow> c' = c \<and> rid' = rid | _ \<Rightarrow> False)"

section \<open>The stores\<close>

text \<open>
  What a remote call or a log statement leaves behind: the calls made through
  \<^verbatim>\<open>self.internal.request\<close> with their arguments, and the log records.
\<close>

datatype event =
    Rpc_social_import_social gamespace string string string
  | Rpc_social_attach_account gamespace string string account client_env bool
  | Rpc_profile_mass_profiles "account list" gamespace
  | Rpc_profile_update_profile profile gamespace account
  | Log_warning string
  | Log_exception string
  | Log_info string
  | Log_debug string

text \<open>
  The mutable state: the table \<^verbatim>\<open>account_credentials\<close> (\<open>links\<close>), the table
  \<^verbatim>\<open>accounts\<close> with its auto-increment counter, the token store, the counter the token
  generator draws fresh uuids from, and the trace of remote calls and log records.
\<close>

record world =
  links :: "(credential \<times> account) list"
  account_rows :: "(account \<times> profile) list"
  last_insert_id :: nat
  token_store :: "(account \<times> string \<times> nat) list"
  uuid_counter :: nat
  trace :: "event list"

subsection \<open>Credential store\<close>

text \<open>
  Modelled from the spec: the class \<^verbatim>\<open>CredentialModel\<close> (\<^verbatim>\<open>self.application.credentials\<close>)
  is not part of the sources. The spec gives: \<^verbatim>\<open>attach\<close> is an idempotent insert of the
  link, \<^verbatim>\<open>detach\<close> removes the link and is a no-op if it is absent, \<^verbatim>\<open>list_accounts\<close>
  returns all accounts linked to a credential, \<^verbatim>\<open>list_account_credentials\<close> returns the
  credentials of an account, optionally restricted to a set of types. The spec gives no
  meaning to the \<^verbatim>\<open>accounts_data\<close> argument of \<^verbatim>\<open>detach\<close>; it is not modelled. Rows are
  returned in insertion order.
\<close>

definition attach :: "credential \<Rightarrow> account \<Rightarrow> world \<Rightarrow> world" where
  "attach c a s = (if (c, a) \<in> set (links s) then s else s\<lparr>links := links s @ [(c, a)]\<rparr>)"

definition detach :: "credential \<Rightarrow> account \<Rightarrow> world \<Rightarrow> world" where
  "detach c a s = s\<lparr>links := filter (\<lambda>l. l \<noteq> (c, a)) (links s)\<rparr>"

definition list_accounts :: "credential \<Rightarrow> world \<Rightarrow> account list" where
  "list_accounts c s = map snd (filter (\<lambda>l. fst l = c) (links s))"

definition list_account_credentials :: "account \<Rightarrow> string list option \<Rightarrow> world \<Rightarrow> credential list" where
  "list_account_credentials a types s =
     filter (\<lambda>c. case types of None \<Rightarrow> True | Some ts \<Rightarrow> fst (parse_account c) \<in> set ts)
       (map fst (filter (\<lambda>l. snd l = a) (links s)))"

subsection \<open>Token store and token generator\<close>

text \<open>
  Modelled from the spec: the token store (\<^verbatim>\<open>self.application.tokens\<close>) is not part of
  the sources. It holds one record per live unique token, keyed by account and system
  name. \<^verbatim>\<open>save_token\<close> replaces the record of \<open>(account, name)\<close>, with the name
  \<^verbatim>\<open>as or "def"\<close>; \<^verbatim>\<open>invalidate_account\<close> removes every record of the account;
  a token with an issuer is live iff its uuid is recorded for its account, a token
  without issuer has no record to check.
\<close>

definition system_name :: "string option \<Rightarrow> string" where
  "system_name nm = (if truthy nm then the nm else ''def'')"

definition save_token :: "account \<Rightarrow> nat \<Rightarrow> string option \<Rightarrow> world \<Rightarrow> world" where
  "save_token a u nm s =
     s\<lparr>token_store :=
         filter (\<lambda>r. \<not> (fst r = a \<and> fst (snd r) = system_name nm)) (token_store s)
           @ [(a, system_name nm, u)]\<rparr>"

definition invalidate_account :: "account \<Rightarrow> world \<Rightarrow> world" where
  "invalidate_account a s = s\<lparr>token_store := filter (\<lambda>r. fst r \<noteq> a) (token_store s)\<rparr>"

definition validate :: "access_token option \<Rightarrow> world \<Rightarrow> bool" where
  "validate t s =
     (case t of None \<Rightarrow> False
      | Some k \<Rightarrow> (case tk_issuer k of None \<Rightarrow> True
                   | Some i \<Rightarrow> list_ex (\<lambda>r. fst r = tk_account k \<and> snd (snd r) = tk_uuid k)
                                (token_store s)))"

text \<open>
  \<^verbatim>\<open>AccessTokenGenerator.generate(signature, scopes, containers, name)\<close> of the common
  library: the token carries what it is given and a fresh uuid.
\<close>

definition generate_resolve_token :: "gamespace \<Rightarrow> credential \<Rightarrow> world \<Rightarrow> resolve_token \<times> world" where
  "generate_resolve_token g c s =
     (\<lparr>rt_scopes = [''resolve_conflict''], rt_gamespace = g, rt_name = c,
       rt_uuid = uuid_counter s\<rparr>,
      s\<lparr>uuid_counter := Suc (uuid_counter s)\<rparr>)"

definition generate_access_token ::
  "scope set \<Rightarrow> account \<Rightarrow> gamespace \<Rightarrow> string option \<Rightarrow> credential \<Rightarrow> world \<Rightarrow> access_token \<times> world" where
  "generate_access_token scs a g iss c s =
     (\<lparr>tk_scopes = scs, tk_account = a, tk_gamespace = g, tk_issuer = iss, tk_name = c,
       tk_uuid = uuid_counter s\<rparr>,
      s\<lparr>uuid_counter := Suc (uuid_counter s)\<rparr>)"

subsection \<open>Account rows\<close>

definition digits :: string where
  "digits = ''0123456789''"

function str_nat :: "nat \<Rightarrow> string" where
  "str_nat n = (if n < 10 then [digits ! n] else str_nat (n div 10) @ [digits ! (n mod 10)])"
  by pat_completeness auto
termination
  by (relation "measure id") auto

declare str_nat.simps [simp del]

text \<open>
  \<^verbatim>\<open>create_account\<close>: inserts a row with the empty JSON object and returns \<^verbatim>\<open>str\<close> of
  the new auto-increment key. Storage failures (\<^verbatim>\<open>DatabaseError\<close>) belong to the database
  driver and are not modelled, so the result is never \<^verbatim>\<open>None\<close>.
\<close>

definition create_account :: "world \<Rightarrow> account \<times> world" where
  "create_account s =
     (let n = Suc (last_insert_id s)
      in (str_nat n, s\<lparr>account_rows := account_rows s @ [(str_nat n, [])], last_insert_id := n\<rparr>))"

definition log :: "event \<Rightarrow> world \<Rightarrow> world" where
  "log e s = s\<lparr>trace := trace s @ [e]\<rparr>"

section \<open>Collaborators\<close>

text \<open>
  The services the module reaches through \<^verbatim>\<open>self.application\<close> and
  \<^verbatim>\<open>self.internal\<close>. They are outside the module, so their answers are parameters.
  A remote call fails with \<^verbatim>\<open>InternalError(code, body)\<close>; \<^verbatim>\<open>import_social\<close> is the one
  call where the source also handles \<^verbatim>\<open>discover.DiscoveryError\<close>.
\<close>

datatype rpc_failure = InternalError int string

datatype import_outcome =
    Imported
  | Import_InternalError int string
  | Import_DiscoveryError int string

record auth_response =
  import_social :: bool
  response_data :: string

record authentication_result =
  result_credential :: string
  result_username :: string
  result_response :: "auth_response option"

text \<open>
  An authenticator of the registry: \<^verbatim>\<open>social_profile()\<close> and \<^verbatim>\<open>authorize\<close>, which
  fails with \<^verbatim>\<open>authenticator.AuthenticationError(message, code)\<close>.
\<close>

record authenticator =
  social_profile :: bool
  authenticator_authorize ::
    "gamespace \<Rightarrow> args \<Rightarrow> client_env \<Rightarrow> (string \<times> int) + authentication_result"

datatype json = Json_dict profile | Json_other

record application =
  credential_types :: "string \<rightharpoonup> authenticator"
  decode_token :: "string \<Rightarrow> access_token option"
  find_gamespace :: "string \<rightharpoonup> gamespace"
  get_gamespace_access_scopes :: "gamespace \<rightharpoonup> string"
  get_account_access :: "gamespace \<Rightarrow> account \<Rightarrow> scope set option"
  parse_scopes :: "string \<Rightarrow> scope list"
  validate_token_name :: "string \<Rightarrow> bool"
  json_loads :: "string \<Rightarrow> json option"
  social_import_social :: "gamespace \<Rightarrow> string \<Rightarrow> string \<Rightarrow> string \<Rightarrow> import_outcome"
  social_attach_account ::
    "gamespace \<Rightarrow> string \<Rightarrow> string \<Rightarrow> account \<Rightarrow> client_env \<Rightarrow> bool \<Rightarrow> rpc_failure + profile"
  profile_mass_profiles :: "account list \<Rightarrow> gamespace \<Rightarrow> rpc_failure + (account \<times> profile) list"
  profile_update_profile :: "profile \<Rightarrow> gamespace \<Rightarrow> account \<Rightarrow> rpc_failure option"

section \<open>The merge state machine: \<^verbatim>\<open>__merge_accounts__\<close>\<close>

definition LOCAL_CREDENTIALS :: "string list" where
  "LOCAL_CREDENTIALS = [''anonymous'', ''dev'']"

text \<open>
  Lines 229--269: the branch \<^verbatim>\<open>resolve is None\<close>. The reply of \<^verbatim>\<open>mass_profiles\<close> is a
  dictionary; \<^verbatim>\<open>profiles[account]\<close> raises \<^verbatim>\<open>KeyError\<close> for an account it does not hold,
  and nothing catches it there.
\<close>

definition merge_required ::
  "application \<Rightarrow> gamespace \<Rightarrow> credential \<Rightarrow> account \<Rightarrow> credential \<Rightarrow> account \<Rightarrow> credential
     \<Rightarrow> world \<Rightarrow> error \<times> world" where
  "merge_required app gamespace credential account_attach credential_attach account_mine
       credential_mine s =
     (let (resolve_token, s1) = generate_resolve_token gamespace credential s;
          side_local = \<lparr>side_account = account_attach, side_credential = credential_attach,
                        side_profile = None\<rparr>;
          side_remote = \<lparr>side_account = account_mine, side_credential = credential_mine,
                         side_profile = None\<rparr>;
          s2 = log (Rpc_profile_mass_profiles [account_attach, account_mine] gamespace) s1
      in case profile_mass_profiles app [account_attach, account_mine] gamespace of
           Inl (InternalError code body) \<Rightarrow>
             (AuthenticationError 409 ''merge_required''
                (no_fields\<lparr>err_accounts := Some (Conflict side_local side_remote),
                            err_resolve_token := Some resolve_token\<rparr>),
              log (Log_exception ''failed to get profiles for conflict'') s2)
         | Inr profiles \<Rightarrow>
             (case map_of profiles account_attach of
                None \<Rightarrow> (KeyError account_attach, s2)
              | Some profile_local \<Rightarrow>
                  (case map_of profiles account_mine of
                     None \<Rightarrow> (KeyError account_mine, s2)
                   | Some profile_remote \<Rightarrow>
                       (AuthenticationError 409 ''merge_required''
                          (no_fields\<lparr>err_accounts := Some (Conflict
                              (side_local\<lparr>side_profile := Some profile_local\<rparr>)
                              (side_remote\<lparr>side_profile := Some profile_remote\<rparr>)),
                            err_resolve_token := Some resolve_token\<rparr>),
                        s2))))"

text \<open>Lines 272--284, 286--312 and 314--327: the three resolutions.\<close>

definition not_mine :: "credential \<Rightarrow> account \<Rightarrow> account \<Rightarrow> world \<Rightarrow> account \<times> world" where
  "not_mine credential_mine account_mine account_attach s =
     (let s1 = detach credential_mine account_mine s;
          s2 = attach credential_mine account_attach s1
      in (account_attach, s2))"

definition local_merge :: "credential \<Rightarrow> account \<Rightarrow> account \<Rightarrow> world \<Rightarrow> account \<times> world" where
  "local_merge credential_mine account_mine account_attach s =
     (let s1 = detach credential_mine account_mine s;
          s2 = attach credential_mine account_attach s1;
          anonymous_credentials = list_account_credentials account_mine (Some LOCAL_CREDENTIALS) s2;
          s3 = foldl (\<lambda>w anon_credential. attach anon_credential account_attach w) s2
                 anonymous_credentials;
          s4 = invalidate_account account_mine s3
      in (account_attach, s4))"

definition remote_merge :: "credential \<Rightarrow> account \<Rightarrow> account \<Rightarrow> world \<Rightarrow> account \<times> world" where
  "remote_merge credential_attach account_attach account_mine s =
     (let s1 = detach credential_attach account_attach s;
          s2 = invalidate_account account_attach s1;
          s3 = attach credential_attach account_mine s2
      in (account_mine, s3))"

definition multiple_accounts_info :: "credential \<Rightarrow> error_fields" where
  "multiple_accounts_info c =
     info_only (''Credential '' @ [CHR 0x27] @ c @ [CHR 0x27] @ '' has multiple accounts attached.'')"

definition merge_accounts ::
  "application \<Rightarrow> access_token \<Rightarrow> credential \<Rightarrow> string option \<Rightarrow> gamespace \<Rightarrow> world
     \<Rightarrow> (error + account) \<times> world" where
  "merge_accounts app attach_to credential resolve gamespace s =
     (let credential_type = fst (parse_account credential);
          account_attach = tk_account attach_to;
          credential_attach = tk_name attach_to;
          credential_mine = credential;
          attached_credentials =
            list_account_credentials account_attach (Some [credential_type]) s;
          same_credential = (case attached_credentials of [] \<Rightarrow> None | c # cs \<Rightarrow> Some c);
          accounts = list_accounts credential_mine s
      in if truthy same_credential then
           (if same_credential = Some credential_mine then (Inr account_attach, s)
            else
              (case (case accounts of
                       [] \<Rightarrow> (let (account_mine, s1) = create_account s
                              in Inr (account_mine, attach credential_mine account_mine s1))
                     | [account_mine] \<Rightarrow> Inr (account_mine, s)
                     | _ \<Rightarrow> Inl (AuthenticationError 409 ''multiple_accounts_attached''
                                  (multiple_accounts_info credential_mine))) of
                 Inl e \<Rightarrow> (Inl e, s)
               | Inr (account_mine, s2) \<Rightarrow>
                   (let s3 = detach credential_attach account_attach s2;
                        s4 = attach credential_attach account_mine s3;
                        s5 = invalidate_account account_attach s4
                    in (Inr account_mine, s5))))
         else
           (case accounts of
              [] \<Rightarrow> (Inr account_attach, attach credential_mine account_attach s)
            | [account_mine] \<Rightarrow>
                (case resolve of
                   None \<Rightarrow>
                     (let (e, s1) = merge_required app gamespace credential account_attach
                                      credential_attach account_mine credential_mine s
                      in (Inl e, s1))
                 | Some option \<Rightarrow>
                     if option = ''not_mine'' then
                       (let (r, s1) = not_mine credential_mine account_mine account_attach s
                        in (Inr r, s1))
                     else if option = ''local'' then
                       (let (r, s1) = local_merge credential_mine account_mine account_attach s
                        in (Inr r, s1))
                     else if option = ''remote'' then
                       (let (r, s1) = remote_merge credential_attach account_attach account_mine s
                        in (Inr r, s1))
                     else
                       (Inl (AuthenticationError 400 ''unknown_merge_option''
                               (info_only (''Unknown merge option: '' @ [CHR 0x27] @ option
                                  @ [CHR 0x27] @ ''.''))), s))
            | _ \<Rightarrow> (Inl (AuthenticationError 409 ''multiple_accounts_attached''
                           (multiple_accounts_info credential_mine)), s)))"

section \<open>Conflict report and social import\<close>

text \<open>
  Lines 351--401, \<^verbatim>\<open>__multiple_accounts_attached__\<close>: always raises. A profile missing
  from the reply of \<^verbatim>\<open>mass_profiles\<close> is reported as the empty dictionary.
\<close>

definition multiple_accounts_attached ::
  "application \<Rightarrow> gamespace \<Rightarrow> credential \<Rightarrow> account list \<Rightarrow> world \<Rightarrow> error \<times> world" where
  "multiple_accounts_attached app gamespace_id credential accounts s =
     (let (resolve_token, s1) = generate_resolve_token gamespace_id credential s;
          s2 = log (Rpc_profile_mass_profiles accounts gamespace_id) s1;
          (account_profiles, s3) =
            (case profile_mass_profiles app accounts gamespace_id of
               Inl (InternalError code body) \<Rightarrow>
                 ([], log (Log_exception
                       ''failed to get profiles for multiple_accounts_attached'') s2)
             | Inr profiles \<Rightarrow> (profiles, s2));
          accounts_summary =
            map (\<lambda>account. (account, case map_of account_profiles account of
                                         Some p \<Rightarrow> p | None \<Rightarrow> [])) accounts
      in (AuthenticationError 300 ''multiple_accounts_attached''
            (no_fields\<lparr>err_resolve_token := Some resolve_token,
                        err_accounts := Some (Summary accounts_summary),
                        err_info := Some
                          ''Conflict: More than one credentials attached to this account.''\<rparr>),
          s3))"

text \<open>Lines 83--112, \<^verbatim>\<open>__import_social_connections__\<close>.\<close>

definition import_social_connections ::
  "application \<Rightarrow> gamespace \<Rightarrow> string \<Rightarrow> string \<Rightarrow> auth_response \<Rightarrow> world
     \<Rightarrow> (error + unit) \<times> world" where
  "import_social_connections app gamespace credential username auth_response s =
     (let s1 = log (Rpc_social_import_social gamespace credential username
                      (response_data auth_response)) s
      in case social_import_social app gamespace credential username
                (response_data auth_response) of
           Imported \<Rightarrow> (Inr (), s1)
         | Import_InternalError code body \<Rightarrow>
             (Inl (AuthenticationError code ''failed_to_import_social'' (info_only body)), s1)
         | Import_DiscoveryError code message \<Rightarrow>
             (Inr (), log (Log_warning ''Failed to discover social'') s1))"

section \<open>Account rows: info, deletion\<close>

definition get_account_info :: "account \<Rightarrow> world \<Rightarrow> profile option" where
  "get_account_info account s = map_of (account_rows s) account"

text \<open>
  Modelled from the spec: the helper \<^verbatim>\<open>update\<close> of the common library merges the patch
  into the stored object, keys of the patch overwriting. Account info is kept as a flat
  dictionary here.
\<close>

definition update_dict :: "profile \<Rightarrow> profile \<Rightarrow> profile" where
  "update_dict d u = foldl (\<lambda>acc kv. filter (\<lambda>e. fst e \<noteq> fst kv) acc @ [kv]) d u"

text \<open>
  Lines 904--923, \<^verbatim>\<open>update_account_info\<close>. For an account without a row the stored value
  is \<^verbatim>\<open>None\<close>: an empty patch leaves it alone, and writing a key into it is a
  \<^verbatim>\<open>TypeError\<close>.
\<close>

definition update_account_info :: "account \<Rightarrow> profile \<Rightarrow> world \<Rightarrow> (error + unit) \<times> world" where
  "update_account_info account account_info s =
     (case get_account_info account s of
        None \<Rightarrow> (if account_info = [] then (Inr (), s) else (Inl TypeError, s))
      | Some v \<Rightarrow>
          (Inr (), s\<lparr>account_rows :=
                      map (\<lambda>row. if fst row = account
                                  then (fst row, update_dict v account_info) else row)
                        (account_rows s)\<rparr>))"

text \<open>
  What \<^verbatim>\<open>await\<close> is applied to: the coroutine object a call of an \<^verbatim>\<open>async\<close> method
  returns, or the method itself. Awaiting a bound method is a \<^verbatim>\<open>TypeError\<close>.
\<close>

datatype 'a awaited = Coroutine 'a | Bound_method

definition await :: "'a awaited \<Rightarrow> error + 'a" where
  "await x = (case x of Coroutine v \<Rightarrow> Inr v | Bound_method \<Rightarrow> Inl TypeError)"

text \<open>
  Lines 835--855, \<^verbatim>\<open>delete_account\<close>. Line 843 awaits
  \<^verbatim>\<open>credentials_data.list_account_credentials\<close> itself: the method is not called.
\<close>

definition delete_account :: "account \<Rightarrow> world \<Rightarrow> (error + unit) \<times> world" where
  "delete_account account_id s =
     (case await (Bound_method :: credential list awaited) of
        Inl e \<Rightarrow> (Inl e, s)
      | Inr credentials \<Rightarrow>
          (let s1 = foldl (\<lambda>w credential. detach credential account_id w) s credentials;
               s2 = s1\<lparr>account_rows := filter (\<lambda>row. fst row \<noteq> account_id) (account_rows s1)\<rparr>
           in (Inr (), s2)))"

section \<open>The tail: \<^verbatim>\<open>proceed_authentication\<close>\<close>

record authentication =
  auth_token :: access_token
  auth_account :: account
  auth_credential :: credential
  auth_scopes :: "scope set"

text \<open>Line 679.\<close>

definition fetch_profile :: "args \<Rightarrow> bool" where
  "fetch_profile a = (get_default a ''import_profile'' ''true'' = ''true'')"

text \<open>
  Lines 684--697: for a social credential the social service is asked to attach the
  account, with the flag \<^verbatim>\<open>fetch_profile\<close>; an \<^verbatim>\<open>InternalError\<close> is logged.
\<close>

definition attach_social_profile ::
  "application \<Rightarrow> authenticator \<Rightarrow> gamespace \<Rightarrow> string \<Rightarrow> string \<Rightarrow> account \<Rightarrow> client_env
     \<Rightarrow> args \<Rightarrow> world \<Rightarrow> profile option \<times> world" where
  "attach_social_profile app credential_authenticator gamespace_id cred_type username account
       env a s =
     (if social_profile credential_authenticator then
        (let s' = log (Rpc_social_attach_account gamespace_id cred_type username account env
                         (fetch_profile a)) s
         in case social_attach_account app gamespace_id cred_type username account env
                   (fetch_profile a) of
              Inr data \<Rightarrow> (Some data, s')
            | Inl (InternalError code body) \<Rightarrow>
                (None, log (Log_warning ''Failed to get profile_data'') s'))
      else (None, s))"

text \<open>Lines 699--705: \<^verbatim>\<open>should_have\<close> and the inner \<^verbatim>\<open>_have_scope\<close>.\<close>

definition have_scope :: "application \<Rightarrow> args \<Rightarrow> scope \<Rightarrow> bool" where
  "have_scope app a a_scope =
     (let should_have = get_default a ''should_have'' ''*''
      in should_have = ''*'' \<or> a_scope \<in> set (parse_scopes app should_have))"

text \<open>Lines 709--728: the scopes of the user, updated with the scopes of the gamespace.\<close>

definition user_scopes :: "application \<Rightarrow> gamespace \<Rightarrow> account \<Rightarrow> error + scope set" where
  "user_scopes app gamespace_id account =
     (let scopes_of_user = (case get_account_access app gamespace_id account of
                              None \<Rightarrow> {} | Some u \<Rightarrow> u)
      in case get_gamespace_access_scopes app gamespace_id of
           None \<Rightarrow> Inl (AuthenticationError 404 ''no_such_gamespace''
                     (info_only (''Gamespace ID '' @ [CHR 0x27] @ gamespace_id @ [CHR 0x27]
                        @ '' was not found.'')))
         | Some gamespace_scopes_data \<Rightarrow>
             Inr (scopes_of_user \<union> set (parse_scopes app gamespace_scopes_data)))"

text \<open>
  Lines 730--751: the loop over the requested scopes, the \<^verbatim>\<open>unique\<close> argument, and the
  allowed scopes. The result is the pair \<open>(unique, allowed_scopes)\<close>.
\<close>

definition resolve_scopes ::
  "application \<Rightarrow> credential \<Rightarrow> scope list \<Rightarrow> args \<Rightarrow> scope set \<Rightarrow> error + (bool \<times> scope set)" where
  "resolve_scopes app credential requested_scopes a scopes_of_user =
     (case find (\<lambda>scope. scope \<notin> scopes_of_user \<and> have_scope app a scope) requested_scopes of
        Some scope \<Rightarrow>
          Inl (AuthenticationError 403 ''scope_restricted''
                 (no_fields\<lparr>err_credential := Some credential,
                             err_info := Some (''User '' @ [CHR 0x27] @ credential @ [CHR 0x27]
                               @ '' has no scope '' @ [CHR 0x27] @ scope @ [CHR 0x27]
                               @ '' asked.'')\<rparr>))
      | None \<Rightarrow>
          if get_default a ''unique'' ''true'' = ''false'' then
            (if ''auth_non_unique'' \<notin> scopes_of_user then
               Inl (AuthenticationError 403 ''non_unique_token_restricted''
                      (no_fields\<lparr>err_credential := Some credential,
                                  err_info := Some (''User '' @ [CHR 0x27] @ credential
                                    @ [CHR 0x27] @ '' has no access to disable unique ''
                                    @ ''tokens (scope '' @ [CHR 0x27] @ ''auth_non_unique''
                                    @ [CHR 0x27] @ '' is required).'')\<rparr>))
             else Inr (False, set requested_scopes \<inter> scopes_of_user))
          else Inr (True, set requested_scopes \<inter> scopes_of_user))"

text \<open>Lines 755--772: the optional argument \<^verbatim>\<open>info\<close>.\<close>

definition update_info_argument :: "application \<Rightarrow> account \<Rightarrow> args \<Rightarrow> world \<Rightarrow> (error + unit) \<times> world" where
  "update_info_argument app account a s =
     (case a ''info'' of
        None \<Rightarrow> (Inr (), s)
      | Some account_info \<Rightarrow>
          if account_info = [] then (Inr (), s)
          else
            (case json_loads app account_info of
               None \<Rightarrow> (Inl (AuthenticationError 400 ''bad_account_info''
                          (info_only (''The field '' @ [CHR 0x27] @ ''info'' @ [CHR 0x27]
                             @ '' is corrupted.''))), s)
             | Some Json_other \<Rightarrow>
                 (Inl (AuthenticationError 400 ''bad_account_info''
                    (info_only (''The field '' @ [CHR 0x27] @ ''info'' @ [CHR 0x27]
                       @ '' should be a JSON dictionary.''))), s)
             | Some (Json_dict d) \<Rightarrow> update_account_info account d s))"

text \<open>
  Lines 776--833: the token is signed, a unique token is saved under the name
  \<^verbatim>\<open>auth_as\<close>, the profile of a social credential is updated, the reply is built.
\<close>

definition sign_and_store ::
  "application \<Rightarrow> authenticator \<Rightarrow> account \<Rightarrow> credential \<Rightarrow> gamespace \<Rightarrow> string option
     \<Rightarrow> profile option \<Rightarrow> bool \<Rightarrow> scope set \<Rightarrow> world \<Rightarrow> authentication \<times> world" where
  "sign_and_store app credential_authenticator account credential gamespace_id auth_as
       profile_data unique allowed_scopes s =
     (let (res, s1) = generate_access_token allowed_scopes account gamespace_id
                        (if unique then Some ''login'' else None) credential s;
          s2 = (if unique then save_token account (tk_uuid res) auth_as s1 else s1);
          s3 = (if social_profile credential_authenticator then
                  (case profile_data of
                     None \<Rightarrow> s2
                   | Some profile_fields \<Rightarrow>
                       if profile_fields = [] then s2
                       else
                         (let s' = log (Rpc_profile_update_profile profile_fields gamespace_id account) s2
                          in case profile_update_profile app profile_fields gamespace_id account of
                               None \<Rightarrow> s'
                             | Some (InternalError code body) \<Rightarrow>
                                 log (Log_warning ''Failed to update user profile'') s'))
                else s2);
          s4 = log (Log_info ''Authorised user'') s3
      in (\<lparr>auth_token = res, auth_account = account, auth_credential = credential,
           auth_scopes = tk_scopes res\<rparr>, s4))"

text \<open>Lines 623--833.\<close>

definition proceed_authentication ::
  "application \<Rightarrow> account \<Rightarrow> credential \<Rightarrow> gamespace \<Rightarrow> scope list \<Rightarrow> args \<Rightarrow> client_env
     \<Rightarrow> world \<Rightarrow> (error + authentication) \<times> world" where
  "proceed_authentication app account credential gamespace_id requested_scopes a env s =
     (let (cred_type, username) = parse_account credential;
          auth_as = a ''as''
      in if truthy auth_as \<and> \<not> validate_token_name app (the auth_as) then
           (Inl (AuthenticationError 400 ''bad_auth_as''
                   (info_only (''Bad auth as name format : '' @ the auth_as))), s)
         else
           (case credential_types app cred_type of
              None \<Rightarrow>
                (Inl (AuthenticationError 400 ''unknown_credential''
                        (info_only (''Unknown credential type: '' @ cred_type))), s)
            | Some credential_authenticator \<Rightarrow>
                (let (profile_data, s1) =
                       attach_social_profile app credential_authenticator gamespace_id
                         cred_type username account env a s
                 in case user_scopes app gamespace_id account of
                      Inl e \<Rightarrow> (Inl e, s1)
                    | Inr scopes_of_user \<Rightarrow>
                        (case resolve_scopes app credential requested_scopes a scopes_of_user of
                           Inl e \<Rightarrow> (Inl e, s1)
                         | Inr (unique, allowed_scopes) \<Rightarrow>
                             (case update_info_argument app account a s1 of
                                (Inl e, s2) \<Rightarrow> (Inl e, s2)
                              | (Inr u, s2) \<Rightarrow>
                                  (let (reply, s3) =
                                         sign_and_store app credential_authenticator account
                                           credential gamespace_id auth_as profile_data unique
                                           allowed_scopes s2
                                   in (Inr reply, s3)))))))"

section \<open>The entry points\<close>

definition missing_argument :: error where
  "missing_argument = AuthenticationError 400 ''missing_argument''
                        (info_only ''Some argument is missing.'')"

definition attach_to_token_invalid :: error where
  "attach_to_token_invalid = AuthenticationError 403 ''attach_to_token_invalid''
                               (info_only ''Token attach to is not valid'')"

text \<open>Lines 572--610 of \<^verbatim>\<open>authorize\<close>: the account the credential authenticates.\<close>

definition select_account ::
  "application \<Rightarrow> access_token option \<Rightarrow> credential \<Rightarrow> gamespace \<Rightarrow> world
     \<Rightarrow> (error + account) \<times> world" where
  "select_account app attach_to credential gamespace_id s =
     (case attach_to of
        Some token \<Rightarrow>
          (case merge_accounts app token credential None gamespace_id s of
             (Inl e, s1) \<Rightarrow> (Inl e, s1)
           | (Inr account, s1) \<Rightarrow> (Inr account, log (Log_debug ''Merged into'') s1))
      | None \<Rightarrow>
          (case list_accounts credential s of
             [] \<Rightarrow> (let (account, s1) = create_account s;
                        s2 = log (Log_info ''New account created'') s1
                    in (Inr account, attach credential account s2))
           | [account] \<Rightarrow> (Inr account, s)
           | accounts \<Rightarrow>
               (let (e, s1) = multiple_accounts_attached app gamespace_id credential accounts s
                in (Inl e, s1))))"

text \<open>Lines 563--568 of \<^verbatim>\<open>authorize\<close>: the social connections are imported if the
  authenticator's response asks for it.\<close>

definition import_step ::
  "application \<Rightarrow> gamespace \<Rightarrow> authentication_result \<Rightarrow> world \<Rightarrow> (error + unit) \<times> world" where
  "import_step app gamespace_id result s =
     (case result_response result of
        None \<Rightarrow> (Inr (), s)
      | Some response \<Rightarrow>
          if import_social response then
            import_social_connections app gamespace_id (result_credential result)
              (result_username result) response s
          else (Inr (), s))"

text \<open>Lines 475--621.\<close>

definition authorize ::
  "application \<Rightarrow> args \<Rightarrow> client_env \<Rightarrow> world \<Rightarrow> (error + authentication) \<times> world" where
  "authorize app a env s =
     (case (a ''credential'', a ''scopes'') of
        (Some cred_type, Some scopes_argument) \<Rightarrow>
          if \<not> truthy (a ''gamespace_id'') \<and> a ''gamespace'' = None then (Inl missing_argument, s)
          else
            (let requested_scopes = parse_scopes app scopes_argument
             in case credential_types app cred_type of
                  None \<Rightarrow>
                    (Inl (AuthenticationError 400 ''unknown_credential''
                            (info_only (''Unknown credential type: '' @ cred_type))), s)
                | Some credential_authorizer \<Rightarrow>
                    (let attach_to = (case a ''attach_to'' of
                                        None \<Rightarrow> None | Some t \<Rightarrow> decode_token app t)
                     in if a ''attach_to'' \<noteq> None \<and> \<not> validate attach_to s then
                          (Inl attach_to_token_invalid, s)
                        else
                          (case (if truthy (a ''gamespace_id'') then a ''gamespace_id''
                                 else find_gamespace app (get_default a ''gamespace'' [])) of
                             None \<Rightarrow>
                               (Inl (AuthenticationError 404 ''no_such_gamespace''
                                       (info_only (''Gamespace '' @ [CHR 0x27]
                                          @ get_default a ''gamespace'' [] @ [CHR 0x27]
                                          @ '' was not found.''))), s)
                           | Some gamespace_id \<Rightarrow>
                               (case authenticator_authorize credential_authorizer gamespace_id
                                       a env of
                                  Inl (message, code) \<Rightarrow>
                                    (Inl (AuthenticationError 403 message
                                            (no_fields\<lparr>err_error := Some code,
                                               err_info := Some
                                                 ''Failed to authorize with such username/password''\<rparr>)),
                                     s)
                                | Inr result \<Rightarrow>
                                    (case import_step app gamespace_id result s of
                                       (Inl e, s1) \<Rightarrow> (Inl e, s1)
                                     | (Inr u, s1) \<Rightarrow>
                                         (let credential = result_credential result @ '':''
                                                             @ result_username result
                                          in case select_account app attach_to credential
                                                    gamespace_id s1 of
                                               (Inl e, s2) \<Rightarrow> (Inl e, s2)
                                             | (Inr account, s2) \<Rightarrow>
                                                 proceed_authentication app account credential
                                                   gamespace_id requested_scopes a env s2))))))
      | _ \<Rightarrow> (Inl missing_argument, s))"

text \<open>Lines 403--473.\<close>

definition attach_account ::
  "application \<Rightarrow> args \<Rightarrow> client_env \<Rightarrow> world \<Rightarrow> (error + authentication) \<times> world" where
  "attach_account app a env s =
     (case (a ''access_token'', a ''attach_to'', a ''scopes'') of
        (Some access_token_text, Some attach_to_text, Some scopes_argument) \<Rightarrow>
          (let requested_scopes = parse_scopes app scopes_argument;
               access_token = decode_token app access_token_text;
               attach_to = decode_token app attach_to_text
           in if \<not> validate access_token s then
                (Inl (AuthenticationError 403 ''access_token_invalid''
                        (info_only ''Access token is not valid'')), s)
              else if \<not> validate attach_to s then (Inl attach_to_token_invalid, s)
              else
                (case (access_token, attach_to) of
                   (Some access_tk, Some attach_tk) \<Rightarrow>
                     if tk_gamespace access_tk \<noteq> tk_gamespace attach_tk then
                       (Inl (AuthenticationError 400 ''wrong_gamespace''
                               (info_only ''These tokens are from different gamespaces'')), s)
                     else
                       (let gamespace_id = tk_gamespace attach_tk;
                            credential = tk_name access_tk
                        in case merge_accounts app attach_tk credential None gamespace_id s of
                             (Inl e, s1) \<Rightarrow> (Inl e, s1)
                           | (Inr account, s1) \<Rightarrow>
                               proceed_authentication app account credential gamespace_id
                                 requested_scopes a env (log (Log_debug ''Merged into'') s1))
                 | _ \<Rightarrow> (Inl attach_to_token_invalid, s)))
      | _ \<Rightarrow> (Inl missing_argument, s))"

text \<open>
  Lines 971--992, the inner \<^verbatim>\<open>_multiple_accounts_attached\<close> of \<^verbatim>\<open>resolve_conflict\<close>:
  \<^verbatim>\<open>accounts.remove\<close> removes the first occurrence and raises \<^verbatim>\<open>ValueError\<close> if there is
  none.
\<close>

definition resolve_multiple_accounts_attached ::
  "credential \<Rightarrow> args \<Rightarrow> world \<Rightarrow> (error + account) \<times> world" where
  "resolve_multiple_accounts_attached credential a s =
     (let select_option = a ''resolve_with'';
          accounts = list_accounts credential s
      in case select_option of
           None \<Rightarrow>
             (Inl (AuthenticationError 400 ''cannot_resolve_conflict''
                     (info_only (''No such account to select: '' @ [CHR 0x27] @ ''None''
                        @ [CHR 0x27] @ ''.''))), s)
         | Some selected \<Rightarrow>
             if selected \<notin> set accounts then
               (Inl (AuthenticationError 400 ''cannot_resolve_conflict''
                       (info_only (''No such account to select: '' @ [CHR 0x27] @ selected
                          @ [CHR 0x27] @ ''.''))), s)
             else
               (Inr selected,
                foldl (\<lambda>w other_account. detach credential other_account w) s
                  (remove1 selected accounts)))"

text \<open>Lines 994--1010, the inner \<^verbatim>\<open>_merge_required\<close>.\<close>

definition resolve_merge_required ::
  "application \<Rightarrow> credential \<Rightarrow> gamespace \<Rightarrow> string \<Rightarrow> string option \<Rightarrow> world
     \<Rightarrow> (error + account) \<times> world" where
  "resolve_merge_required app credential gamespace resolve_with attach_to s =
     (let attach_to_token = (case attach_to of None \<Rightarrow> None | Some t \<Rightarrow> decode_token app t)
      in if \<not> validate attach_to_token s then (Inl attach_to_token_invalid, s)
         else (case attach_to_token of
                 None \<Rightarrow> (Inl attach_to_token_invalid, s)
               | Some token \<Rightarrow>
                   merge_accounts app token credential (Some resolve_with) gamespace s))"

text \<open>Lines 946--1037.\<close>

definition resolve_conflict ::
  "application \<Rightarrow> resolve_token \<Rightarrow> string \<Rightarrow> args \<Rightarrow> client_env \<Rightarrow> world
     \<Rightarrow> (error + authentication) \<times> world" where
  "resolve_conflict app resolve_tk method_to_resolve a env s =
     (case (a ''resolve_with'', a ''scopes'') of
        (Some resolve_with, Some scopes_argument) \<Rightarrow>
          (let requested_scopes = parse_scopes app scopes_argument;
               attach_to = a ''attach_to'';
               credential = rt_name resolve_tk;
               gamespace = rt_gamespace resolve_tk
           in if method_to_resolve = ''merge_required'' then
                (case resolve_merge_required app credential gamespace resolve_with attach_to s of
                   (Inl e, s1) \<Rightarrow> (Inl e, s1)
                 | (Inr account, s1) \<Rightarrow>
                     proceed_authentication app account credential gamespace requested_scopes
                       a env (log (Log_debug ''Resolved with'') s1))
              else if method_to_resolve = ''multiple_accounts_attached'' then
                (case resolve_multiple_accounts_attached credential a s of
                   (Inl e, s1) \<Rightarrow> (Inl e, s1)
                 | (Inr account, s1) \<Rightarrow>
                     proceed_authentication app account credential gamespace requested_scopes
                       a env (log (Log_debug ''Resolved with'') s1))
              else
                (Inl (AuthenticationError 400 ''bad_resolve_method''
                        (info_only (''Resolve method unsupported: '' @ method_to_resolve))), s))
      | _ \<Rightarrow> (Inl missing_argument, s))"

section \<open>Properties of a store\<close>

text \<open>
  Every account has at most one credential of each type: the types of the credentials
  linked to an account are pairwise different.
\<close>

definition unique_type_per_account :: "world \<Rightarrow> bool" where
  "unique_type_per_account s =
     list_all (\<lambda>account. distinct (map (\<lambda>c. fst (parse_account c))
                                     (remdups (list_account_credentials account None s))))
       (map snd (links s))"

section \<open>An example deployment\<close>

text \<open>
  Concrete collaborators and stores, on which the entry points are evaluated below: a
  registry with the types \<^verbatim>\<open>anonymous\<close>, \<^verbatim>\<open>google\<close> and \<^verbatim>\<open>steam\<close> (the last with a
  social profile, as \<^verbatim>\<open>SteamAuthenticator.social_profile\<close> returns \<^verbatim>\<open>True\<close>), one gamespace
  \<^verbatim>\<open>g\<close> with id \<^verbatim>\<open>1\<close> that grants the scope \<^verbatim>\<open>profile\<close>, an account \<^verbatim>\<open>9\<close> that
  holds \<^verbatim>\<open>auth_non_unique\<close>, a profile service that knows the profile of account \<^verbatim>\<open>2\<close>
  only, and a social service whose \<^verbatim>\<open>attach_account\<close> is down.
\<close>

definition split_commas :: "string \<Rightarrow> string list" where
  "split_commas t =
     filter (\<lambda>w. w \<noteq> [])
       (foldr (\<lambda>c acc. if c = CHR '','' then [] # acc else (c # hd acc) # tl acc) t [[]])"

definition example_authenticator :: "string \<Rightarrow> bool \<Rightarrow> authenticator" where
  "example_authenticator credential_type social =
     \<lparr>social_profile = social,
      authenticator_authorize =
        (\<lambda>gamespace a env. case a ''username'' of
            None \<Rightarrow> Inl (''missing_argument'', 400)
          | Some username \<Rightarrow>
              Inr \<lparr>result_credential = credential_type, result_username = username,
                   result_response = None\<rparr>)\<rparr>"

definition token_google_a :: access_token where
  "token_google_a = \<lparr>tk_scopes = {''profile''}, tk_account = ''3'', tk_gamespace = ''1'',
                     tk_issuer = Some ''login'', tk_name = ''google:a'', tk_uuid = 0\<rparr>"

definition token_google_gg :: access_token where
  "token_google_gg = \<lparr>tk_scopes = {''profile''}, tk_account = ''5'', tk_gamespace = ''1'',
                      tk_issuer = Some ''login'', tk_name = ''google:gg'', tk_uuid = 1\<rparr>"

definition token_facebook_fb :: access_token where
  "token_facebook_fb = \<lparr>tk_scopes = {''profile''}, tk_account = ''3'', tk_gamespace = ''1'',
                        tk_issuer = Some ''login'', tk_name = ''facebook:fb'', tk_uuid = 0\<rparr>"

definition example_app :: application where
  "example_app =
     \<lparr>credential_types =
        [''anonymous'' \<mapsto> example_authenticator ''anonymous'' False,
         ''google'' \<mapsto> example_authenticator ''google'' False,
         ''steam'' \<mapsto> example_authenticator ''steam'' True],
      decode_token = map_of [(''signed-google-a'', token_google_a),
                             (''signed-google-gg'', token_google_gg)],
      find_gamespace = [''g'' \<mapsto> ''1''],
      get_gamespace_access_scopes = [''1'' \<mapsto> ''profile''],
      get_account_access =
        (\<lambda>gamespace account. if account = ''9'' then Some {''auth_non_unique''} else None),
      parse_scopes = split_commas,
      validate_token_name = (\<lambda>name. CHR '' '' \<notin> set name),
      json_loads = (\<lambda>text. None),
      social_import_social = (\<lambda>gamespace credential username auth. Imported),
      social_attach_account =
        (\<lambda>gamespace credential username account env fetch.
           Inl (InternalError 503 ''unavailable'')),
      profile_mass_profiles = (\<lambda>accounts gamespace. Inr [(''2'', [(''name'', ''guest'')])]),
      profile_update_profile = (\<lambda>profile_fields gamespace account. None)\<rparr>"

definition empty_world :: world where
  "empty_world = \<lparr>links = [], account_rows = [(''1'', [])], last_insert_id = 1,
                  token_store = [], uuid_counter = 0, trace = []\<rparr>"

text \<open>\<^verbatim>\<open>anonymous:u1 -> 2\<close>, \<^verbatim>\<open>google:gg -> 5\<close>; both accounts hold a live token.\<close>

definition guest_and_google :: world where
  "guest_and_google =
     empty_world\<lparr>links := [(''anonymous:u1'', ''2''), (''google:gg'', ''5'')],
                  account_rows := [(''1'', []), (''2'', []), (''5'', [])],
                  last_insert_id := 5,
                  token_store := [(''2'', ''def'', 0), (''5'', ''def'', 1)],
                  uuid_counter := 2\<rparr>"

text \<open>\<^verbatim>\<open>google:gg -> 2\<close>, \<^verbatim>\<open>anonymous:u1 -> 2\<close>, \<^verbatim>\<open>facebook:fb -> 3\<close>.\<close>

definition guest_with_google :: world where
  "guest_with_google =
     empty_world\<lparr>links := [(''google:gg'', ''2''), (''anonymous:u1'', ''2''),
                            (''facebook:fb'', ''3'')],
                  account_rows := [(''1'', []), (''2'', []), (''3'', [])],
                  last_insert_id := 3,
                  token_store := [(''3'', ''def'', 0), (''2'', ''def'', 1)],
                  uuid_counter := 2\<rparr>"

text \<open>\<^verbatim>\<open>google:a -> 3\<close>, with the live token \<open>token_google_a\<close> of account \<^verbatim>\<open>3\<close>.\<close>

definition one_google :: world where
  "one_google =
     empty_world\<lparr>links := [(''google:a'', ''3'')],
                  account_rows := [(''1'', []), (''2'', []), (''3'', [])],
                  last_insert_id := 3,
                  token_store := [(''3'', ''def'', 0)],
                  uuid_counter := 1\<rparr>"

text \<open>\<^verbatim>\<open>google:gg -> 7\<close> and \<^verbatim>\<open>google:gg -> 8\<close>.\<close>

definition shared_google :: world where
  "shared_google =
     empty_world\<lparr>links := [(''google:gg'', ''7''), (''google:gg'', ''8'')],
                  account_rows := [(''1'', []), (''7'', []), (''8'', [])],
                  last_insert_id := 8\<rparr>"

text \<open>\<^verbatim>\<open>steam:s1 -> 2\<close> and \<^verbatim>\<open>anonymous:u9 -> 9\<close>.\<close>

definition steam_player :: world where
  "steam_player =
     empty_world\<lparr>links := [(''steam:s1'', ''2''), (''anonymous:u9'', ''9'')],
                  account_rows := [(''1'', []), (''2'', []), (''9'', [])],
                  last_insert_id := 9\<rparr>"

definition request_google_b :: args where
  "request_google_b = [''credential'' \<mapsto> ''google'', ''scopes'' \<mapsto> ''profile'',
                       ''gamespace'' \<mapsto> ''g'', ''username'' \<mapsto> ''b'',
                       ''attach_to'' \<mapsto> ''signed-google-a'']"

definition request_google_gg :: args where
  "request_google_gg = [''credential'' \<mapsto> ''google'', ''scopes'' \<mapsto> ''profile'',
                        ''gamespace'' \<mapsto> ''g'', ''username'' \<mapsto> ''gg'']"

definition resolve_token_gg :: resolve_token where
  "resolve_token_gg = \<lparr>rt_scopes = [''resolve_conflict''], rt_gamespace = ''1'',
                       rt_name = ''google:gg'', rt_uuid = 0\<rparr>"

definition request_keep_7 :: args where
  "request_keep_7 = [''resolve_with'' \<mapsto> ''7'', ''scopes'' \<mapsto> ''profile'']"

text \<open>Requests for the tail, on the store \<open>steam_player\<close>.\<close>

definition request_should_have :: args where
  "request_should_have = [''should_have'' \<mapsto> ''profile'']"

definition request_non_unique :: args where
  "request_non_unique = [''unique'' \<mapsto> ''false'']"


section \<open>Facts about the stores\<close>

lemma linked_in_listing:
  "(c, a) \<in> set (links s) \<Longrightarrow>
     c \<in> set (list_account_credentials a (Some [fst (parse_account c)]) s)"
  by (force simp: list_account_credentials_def)

lemma list_accounts_iff: "a \<in> set (list_accounts c s) \<longleftrightarrow> (c, a) \<in> set (links s)"
  by (force simp: list_accounts_def)

lemma links_attach: "set (links (attach c a s)) = insert (c, a) (set (links s))"
  by (auto simp: attach_def)

lemma links_detach: "set (links (detach c a s)) = set (links s) - {(c, a)}"
  by (auto simp: detach_def)

lemma token_store_attach: "token_store (attach c a s) = token_store s"
  by (simp add: attach_def)

lemma token_store_detach: "token_store (detach c a s) = token_store s"
  by (simp add: detach_def)

lemma token_store_invalidate:
  "token_store (invalidate_account a s) = filter (\<lambda>r. fst r \<noteq> a) (token_store s)"
  by (simp add: invalidate_account_def)

lemma token_store_foldl_attach:
  "token_store (foldl (\<lambda>w c. attach c a w) s cs) = token_store s"
  by (induction cs arbitrary: s) (simp_all add: token_store_attach)

lemma validate_token_store:
  "token_store s' = token_store s \<Longrightarrow> validate t s' = validate t s"
  by (simp add: validate_def split: option.splits)

section \<open>The merge state machine on a target without a credential of the type\<close>

lemma merge_accounts_absent_one:
  assumes "list_account_credentials (tk_account attach_to)
             (Some [fst (parse_account credential)]) s = []"
      and "list_accounts credential s = [account_mine]"
  shows "merge_accounts app attach_to credential (Some option) gamespace s =
     (if option = ''not_mine'' then
        (Inr (tk_account attach_to),
         snd (not_mine credential account_mine (tk_account attach_to) s))
      else if option = ''local'' then
        (Inr (tk_account attach_to),
         snd (local_merge credential account_mine (tk_account attach_to) s))
      else if option = ''remote'' then
        (Inr account_mine,
         snd (remote_merge (tk_name attach_to) (tk_account attach_to) account_mine s))
      else (Inl (AuthenticationError 400 ''unknown_merge_option''
                   (info_only (''Unknown merge option: '' @ [CHR 0x27] @ option
                      @ [CHR 0x27] @ ''.''))), s))"
  using assms
  by (simp add: merge_accounts_def truthy_def Let_def not_mine_def local_merge_def
        remote_merge_def)

lemma mine_is_not_target:
  assumes "list_account_credentials account_attach (Some [fst (parse_account credential)]) s = []"
      and "list_accounts credential s = [account_mine]"
  shows "account_mine \<noteq> account_attach"
proof
  assume eq: "account_mine = account_attach"
  have "account_mine \<in> set (list_accounts credential s)"
    using assms(2) by simp
  then have "(credential, account_attach) \<in> set (links s)"
    using eq by (simp add: list_accounts_iff)
  then show False
    using linked_in_listing [of credential account_attach s] assms(1) by simp
qed

text \<open>
  C10. With \<^verbatim>\<open>resolve = "not_mine"\<close>, on a target account without a credential of the
  type and a merged credential linked to exactly one account \<open>account_mine\<close>, the merge
  returns the target account, the credential is no longer linked to \<open>account_mine\<close> and is
  linked to the target, and the token store is untouched, so every token that was valid
  stays valid. The resolutions \<^verbatim>\<open>local\<close> and \<^verbatim>\<open>remote\<close> remove the tokens of the displaced
  account (\<open>account_mine\<close> and the target account).
\<close>

theorem merge_not_mine_keeps_tokens:
  assumes absent: "list_account_credentials (tk_account attach_to)
                     (Some [fst (parse_account credential)]) s = []"
      and one: "list_accounts credential s = [account_mine]"
  shows "(\<exists>s'. merge_accounts app attach_to credential (Some ''not_mine'') gamespace s
                 = (Inr (tk_account attach_to), s')
            \<and> (credential, account_mine) \<notin> set (links s')
            \<and> (credential, tk_account attach_to) \<in> set (links s')
            \<and> token_store s' = token_store s
            \<and> (\<forall>t. validate t s' = validate t s))
       \<and> (\<exists>s'. merge_accounts app attach_to credential (Some ''local'') gamespace s
                 = (Inr (tk_account attach_to), s')
            \<and> token_store s' = filter (\<lambda>r. fst r \<noteq> account_mine) (token_store s))
       \<and> (\<exists>s'. merge_accounts app attach_to credential (Some ''remote'') gamespace s
                 = (Inr account_mine, s')
            \<and> token_store s' = filter (\<lambda>r. fst r \<noteq> tk_account attach_to) (token_store s))"
proof -
  have ne: "account_mine \<noteq> tk_account attach_to"
    using mine_is_not_target [OF absent one] .
  define s1 where "s1 = snd (not_mine credential account_mine (tk_account attach_to) s)"
  have r1: "merge_accounts app attach_to credential (Some ''not_mine'') gamespace s
              = (Inr (tk_account attach_to), s1)"
    using merge_accounts_absent_one [OF absent one, of app "''not_mine''" gamespace]
    by (simp add: s1_def)
  have ts: "token_store s1 = token_store s"
    by (simp add: s1_def not_mine_def token_store_attach token_store_detach)
  have l1: "(credential, account_mine) \<notin> set (links s1)"
    using ne by (simp add: s1_def not_mine_def links_attach links_detach)
  have l2: "(credential, tk_account attach_to) \<in> set (links s1)"
    by (simp add: s1_def not_mine_def links_attach)
  have v: "\<forall>t. validate t s1 = validate t s"
    using validate_token_store [OF ts] by simp
  define s2 where "s2 = snd (local_merge credential account_mine (tk_account attach_to) s)"
  have r2: "merge_accounts app attach_to credential (Some ''local'') gamespace s
              = (Inr (tk_account attach_to), s2)"
    using merge_accounts_absent_one [OF absent one, of app "''local''" gamespace]
    by (simp add: s2_def)
  have t2: "token_store s2 = filter (\<lambda>r. fst r \<noteq> account_mine) (token_store s)"
    by (simp add: s2_def local_merge_def Let_def token_store_invalidate
          token_store_foldl_attach token_store_attach token_store_detach)
  define s3 where
    "s3 = snd (remote_merge (tk_name attach_to) (tk_account attach_to) account_mine s)"
  have r3: "merge_accounts app attach_to credential (Some ''remote'') gamespace s
              = (Inr account_mine, s3)"
    using merge_accounts_absent_one [OF absent one, of app "''remote''" gamespace]
    by (simp add: s3_def)
  have t3: "token_store s3 = filter (\<lambda>r. fst r \<noteq> tk_account attach_to) (token_store s)"
    by (simp add: s3_def remote_merge_def Let_def token_store_invalidate
          token_store_attach token_store_detach)
  from r1 l1 l2 ts v r2 t2 r3 t3 show ?thesis by blast
qed

lemma guest_and_google_absent:
  "list_account_credentials (tk_account token_google_gg)
     (Some [fst (parse_account ''anonymous:u1'')]) guest_and_google = []"
  by (simp add: list_account_credentials_def parse_account_def guest_and_google_def
        empty_world_def token_google_gg_def)

lemma guest_and_google_one: "list_accounts ''anonymous:u1'' guest_and_google = [''2'']"
  by (simp add: list_accounts_def guest_and_google_def empty_world_def)

theorem merge_not_mine_keeps_tokens_witness:
  "list_account_credentials (tk_account token_google_gg)
     (Some [fst (parse_account ''anonymous:u1'')]) guest_and_google = []
   \<and> list_accounts ''anonymous:u1'' guest_and_google = [''2'']
   \<and> (\<exists>s'. merge_accounts example_app token_google_gg ''anonymous:u1'' (Some ''not_mine'') ''1''
               guest_and_google = (Inr ''5'', s')
          \<and> (''anonymous:u1'', ''2'') \<notin> set (links s')
          \<and> (''anonymous:u1'', ''5'') \<in> set (links s')
          \<and> token_store s' = [(''2'', ''def'', 0), (''5'', ''def'', 1)])"
proof -
  have target: "tk_account token_google_gg = ''5''"
    by (simp add: token_google_gg_def)
  have tokens: "token_store guest_and_google = [(''2'', ''def'', 0), (''5'', ''def'', 1)]"
    by (simp add: guest_and_google_def empty_world_def)
  show ?thesis
    using merge_not_mine_keeps_tokens
            [OF guest_and_google_absent guest_and_google_one, of example_app "''1''"]
          guest_and_google_absent guest_and_google_one
    by (auto simp: target tokens)
qed

section \<open>The resolution \<^verbatim>\<open>local\<close>\<close>

text \<open>
  What \<open>local_merge\<close> does to the links in general: the merged credential moves, and the
  local-type credentials of \<open>account_mine\<close> are linked to the target as well; nothing
  but the merged credential is removed from \<open>account_mine\<close>.
\<close>

lemma links_foldl_attach:
  "set (links (foldl (\<lambda>w c. attach c a w) s cs)) = set (links s) \<union> (\<lambda>c. (c, a)) ` set cs"
  by (induction cs arbitrary: s) (auto simp: links_attach)

lemma links_invalidate: "links (invalidate_account a s) = links s"
  by (simp add: invalidate_account_def)

lemma local_merge_links:
  "set (links (snd (local_merge credential_mine account_mine account_attach s))) =
     (set (links s) - {(credential_mine, account_mine)})
     \<union> {(credential_mine, account_attach)}
     \<union> (\<lambda>c. (c, account_attach)) `
         set (list_account_credentials account_mine (Some LOCAL_CREDENTIALS)
                (attach credential_mine account_attach
                   (detach credential_mine account_mine s)))"
  by (auto simp: local_merge_def Let_def links_invalidate links_foldl_attach links_attach
        links_detach)

text \<open>
  C1. The claim is evaluated on the store \<^verbatim>\<open>google:gg -> 2\<close>, \<^verbatim>\<open>anonymous:u1 -> 2\<close>,
  \<^verbatim>\<open>facebook:fb -> 3\<close>, merging \<^verbatim>\<open>google:gg\<close> into account \<^verbatim>\<open>3\<close> with
  \<^verbatim>\<open>resolve = "local"\<close>. The target has no \<^verbatim>\<open>google\<close> credential and \<^verbatim>\<open>google:gg\<close> is linked
  to account \<^verbatim>\<open>2\<close> only. The merge returns account \<^verbatim>\<open>3\<close>, and \<^verbatim>\<open>anonymous:u1\<close> is then
  linked to account \<^verbatim>\<open>3\<close> and still linked to account \<^verbatim>\<open>2\<close>.
\<close>

theorem local_merge_keeps_guest_link:
  "list_account_credentials (tk_account token_facebook_fb)
     (Some [fst (parse_account ''google:gg'')]) guest_with_google = []
   \<and> list_accounts ''google:gg'' guest_with_google = [''2'']
   \<and> fst (merge_accounts example_app token_facebook_fb ''google:gg'' (Some ''local'') ''1''
            guest_with_google) = Inr ''3''
   \<and> links (snd (merge_accounts example_app token_facebook_fb ''google:gg'' (Some ''local'')
                   ''1'' guest_with_google))
       = [(''anonymous:u1'', ''2''), (''facebook:fb'', ''3''), (''google:gg'', ''3''),
          (''anonymous:u1'', ''3'')]"
  by (simp add: merge_accounts_def local_merge_def list_account_credentials_def
        list_accounts_def parse_account_def truthy_def Let_def attach_def detach_def
        invalidate_account_def LOCAL_CREDENTIALS_def guest_with_google_def empty_world_def
        token_facebook_fb_def)

section \<open>Deleting an account\<close>

text \<open>
  C9. \<open>delete_account\<close> on account \<^verbatim>\<open>2\<close> of the store \<^verbatim>\<open>anonymous:u1 -> 2\<close>,
  \<^verbatim>\<open>google:gg -> 5\<close>: the call ends with \<^verbatim>\<open>TypeError\<close>, the link of \<^verbatim>\<open>anonymous:u1\<close> to the
  account and the row of the account are still there.
\<close>

theorem delete_account_type_error:
  "delete_account ''2'' guest_and_google = (Inl TypeError, guest_and_google)
   \<and> (''anonymous:u1'', ''2'') \<in> set (links (snd (delete_account ''2'' guest_and_google)))
   \<and> ''2'' \<in> fst ` set (account_rows (snd (delete_account ''2'' guest_and_google)))"
  by (simp add: delete_account_def await_def guest_and_google_def empty_world_def)

lemma delete_account_raises: "delete_account account_id s = (Inl TypeError, s)"
  by (simp add: delete_account_def await_def)

section \<open>One type per account\<close>

text \<open>
  C2. \<open>authorize\<close> is evaluated on the store \<^verbatim>\<open>google:a -> 3\<close>, where every account has
  at most one credential of each type, with the credential \<^verbatim>\<open>google:b\<close> and
  \<^verbatim>\<open>attach_to\<close> the valid token of \<^verbatim>\<open>google:a\<close> for account \<^verbatim>\<open>3\<close>. The call succeeds with
  the new account \<^verbatim>\<open>4\<close>, and account \<^verbatim>\<open>4\<close> is then linked to \<^verbatim>\<open>google:b\<close> and to
  \<^verbatim>\<open>google:a\<close>: two credentials of the type \<^verbatim>\<open>google\<close>.
\<close>

theorem authorize_attach_two_of_a_type:
  "unique_type_per_account one_google
   \<and> validate (Some token_google_a) one_google
   \<and> fst (authorize example_app request_google_b [] one_google)
       = Inr \<lparr>auth_token = \<lparr>tk_scopes = {''profile''}, tk_account = ''4'',
                tk_gamespace = ''1'', tk_issuer = Some ''login'',
                tk_name = ''google:b'', tk_uuid = 1\<rparr>,
              auth_account = ''4'', auth_credential = ''google:b'',
              auth_scopes = {''profile''}\<rparr>
   \<and> links (snd (authorize example_app request_google_b [] one_google))
       = [(''google:b'', ''4''), (''google:a'', ''4'')]
   \<and> \<not> unique_type_per_account (snd (authorize example_app request_google_b [] one_google))"
  by code_simp

section \<open>The conflict \<^verbatim>\<open>merge_required\<close>\<close>

text \<open>
  Whatever the profile service answers, the branch \<^verbatim>\<open>resolve is None\<close> changes no link, no
  token record and no account row; it draws a uuid and leaves a trace.
\<close>

lemma merge_required_frame:
  "links (snd (merge_required app g c aa ca am cm s)) = links s
   \<and> token_store (snd (merge_required app g c aa ca am cm s)) = token_store s
   \<and> account_rows (snd (merge_required app g c aa ca am cm s)) = account_rows s"
  by (simp add: merge_required_def generate_resolve_token_def log_def Let_def
        split: sum.splits rpc_failure.splits option.splits)

text \<open>
  When the profile service fails, or answers with a profile for both accounts, the error is
  \<^verbatim>\<open>merge_required\<close> with code 409, the fresh resolve token and the two sides.
\<close>

lemma merge_required_complete:
  assumes "profile_mass_profiles app [aa, am] g = Inl failure
           \<or> (\<exists>profiles pl pr. profile_mass_profiles app [aa, am] g = Inr profiles
                \<and> map_of profiles aa = Some pl \<and> map_of profiles am = Some pr)"
  shows "\<exists>f. fst (merge_required app g c aa ca am cm s)
               = AuthenticationError 409 ''merge_required'' f
           \<and> err_resolve_token f = Some \<lparr>rt_scopes = [''resolve_conflict''], rt_gamespace = g,
                                          rt_name = c, rt_uuid = uuid_counter s\<rparr>
           \<and> (\<exists>pl pr. err_accounts f = Some (Conflict
                 \<lparr>side_account = aa, side_credential = ca, side_profile = pl\<rparr>
                 \<lparr>side_account = am, side_credential = cm, side_profile = pr\<rparr>))"
  using assms
  by (cases failure)
     (auto simp: merge_required_def generate_resolve_token_def log_def Let_def no_fields_def
        split: sum.splits rpc_failure.splits option.splits)

text \<open>
  C4. \<open>merge_accounts\<close> with \<^verbatim>\<open>resolve = None\<close> is evaluated on the store
  \<^verbatim>\<open>anonymous:u1 -> 2\<close>, \<^verbatim>\<open>google:gg -> 5\<close>, merging \<^verbatim>\<open>anonymous:u1\<close> into account \<^verbatim>\<open>5\<close>,
  which has no \<^verbatim>\<open>anonymous\<close> credential; the profile service answers with the profile of
  account \<^verbatim>\<open>2\<close> only. The call ends with \<^verbatim>\<open>KeyError\<close> for account \<^verbatim>\<open>5\<close>, not with
  \<^verbatim>\<open>merge_required\<close>; the links are unchanged.
\<close>

theorem merge_required_missing_profile:
  "list_account_credentials (tk_account token_google_gg)
     (Some [fst (parse_account ''anonymous:u1'')]) guest_and_google = []
   \<and> list_accounts ''anonymous:u1'' guest_and_google = [''2'']
   \<and> profile_mass_profiles example_app [''5'', ''2''] ''1'' = Inr [(''2'', [(''name'', ''guest'')])]
   \<and> fst (merge_accounts example_app token_google_gg ''anonymous:u1'' None ''1''
            guest_and_google) = Inl (KeyError ''5'')
   \<and> links (snd (merge_accounts example_app token_google_gg ''anonymous:u1'' None ''1''
                   guest_and_google)) = links guest_and_google"
  by code_simp

section \<open>The error \<^verbatim>\<open>multiple_accounts_attached\<close>\<close>

lemma multiple_accounts_attached_raises:
  "\<exists>f s'. multiple_accounts_attached app g c accounts s
            = (AuthenticationError 300 ''multiple_accounts_attached'' f, s')
        \<and> err_resolve_token f = Some \<lparr>rt_scopes = [''resolve_conflict''], rt_gamespace = g,
                                       rt_name = c, rt_uuid = uuid_counter s\<rparr>
        \<and> (\<exists>summary. err_accounts f = Some (Summary summary) \<and> map fst summary = accounts)
        \<and> uuid_counter s' = Suc (uuid_counter s)
        \<and> links s' = links s \<and> token_store s' = token_store s"
  by (cases "profile_mass_profiles app accounts g")
     (auto simp: multiple_accounts_attached_def generate_resolve_token_def log_def Let_def
        no_fields_def comp_def split: rpc_failure.splits)

lemma select_account_many:
  assumes "1 < length (list_accounts c s)"
  shows "select_account app None c g s
           = (Inl (fst (multiple_accounts_attached app g c (list_accounts c s) s)),
              snd (multiple_accounts_attached app g c (list_accounts c s) s))"
proof -
  obtain x y zs where "list_accounts c s = x # y # zs"
    using assms by (cases "list_accounts c s"; cases "tl (list_accounts c s)") auto
  then show ?thesis
    by (simp add: select_account_def split_beta)
qed

lemma merge_accounts_many:
  assumes "1 < length (list_accounts c s)"
      and "\<forall>cs. list_account_credentials (tk_account t) (Some [fst (parse_account c)]) s \<noteq> c # cs"
  shows "merge_accounts app t c resolve g s
           = (Inl (AuthenticationError 409 ''multiple_accounts_attached''
                     (multiple_accounts_info c)), s)"
proof -
  obtain x y zs where "list_accounts c s = x # y # zs"
    using assms(1) by (cases "list_accounts c s"; cases "tl (list_accounts c s)") auto
  then show ?thesis
    using assms(2)
    by (cases "list_account_credentials (tk_account t) (Some [fst (parse_account c)]) s")
       (auto simp: merge_accounts_def Let_def truthy_def)
qed

text \<open>
  \<open>authorize\<close> up to the selection of the account: the arguments are there, the type is
  registered, there is no \<^verbatim>\<open>attach_to\<close>, the gamespace is found, the authenticator accepts
  and the import of the social connections does not fail.
\<close>

lemma authorize_selects:
  assumes "a ''credential'' = Some cred_type"
      and "a ''scopes'' = Some scopes_argument"
      and "a ''attach_to'' = None"
      and "credential_types app cred_type = Some authorizer"
      and "(a ''gamespace_id'' = Some gid \<and> gid \<noteq> [])
           \<or> (\<not> truthy (a ''gamespace_id'')
                \<and> (\<exists>name. a ''gamespace'' = Some name \<and> find_gamespace app name = Some gid))"
      and "authenticator_authorize authorizer gid a env = Inr result"
      and "import_step app gid result s = (Inr (), s1)"
  shows "authorize app a env s =
           (case select_account app None
                   (result_credential result @ '':'' @ result_username result) gid s1 of
              (Inl e, s2) \<Rightarrow> (Inl e, s2)
            | (Inr account, s2) \<Rightarrow>
                proceed_authentication app account
                  (result_credential result @ '':'' @ result_username result) gid
                  (parse_scopes app scopes_argument) a env s2)"
  using assms
  by (auto simp: authorize_def Let_def truthy_def get_default_def validate_def
        split: prod.splits sum.splits)

text \<open>
  C3, counterexample. \<open>authorize\<close> without \<^verbatim>\<open>attach_to\<close> on the credential
  \<^verbatim>\<open>google:gg\<close>, linked to the accounts \<^verbatim>\<open>7\<close> and \<^verbatim>\<open>8\<close>: the error
  \<^verbatim>\<open>multiple_accounts_attached\<close> has the code 300, not 409.
\<close>

theorem authorize_multiple_accounts_code:
  "request_google_gg ''attach_to'' = None
   \<and> list_accounts ''google:gg'' shared_google = [''7'', ''8'']
   \<and> is_auth_error 300 ''multiple_accounts_attached''
        (fst (authorize example_app request_google_gg [] shared_google))
   \<and> \<not> is_auth_error 409 ''multiple_accounts_attached''
        (fst (authorize example_app request_google_gg [] shared_google))"
  by code_simp

text \<open>
  C3, as amended. \<open>authorize\<close> without \<^verbatim>\<open>attach_to\<close> on a credential linked to more than
  one account fails with \<^verbatim>\<open>multiple_accounts_attached\<close> and the code 300, carrying a
  resolve token with a fresh uuid for the credential and the gamespace and a summary with
  one entry per linked account, and changes no link and no token record. \<open>merge_accounts\<close>
  (reached from \<open>authorize\<close> with \<^verbatim>\<open>attach_to\<close>, from \<open>attach_account\<close> and from the
  resolver) on a credential linked to more than one account, when the target does not
  already hold that credential, fails with \<^verbatim>\<open>multiple_accounts_attached\<close> and the code
  409, carrying no resolve token, and changes nothing.
\<close>

theorem multiple_accounts_attached_codes:
  "(a ''credential'' = Some cred_type \<and> a ''scopes'' = Some scopes_argument
      \<and> a ''attach_to'' = None \<and> credential_types app cred_type = Some authorizer
      \<and> ((a ''gamespace_id'' = Some gid \<and> gid \<noteq> [])
           \<or> (\<not> truthy (a ''gamespace_id'')
                \<and> (\<exists>name. a ''gamespace'' = Some name \<and> find_gamespace app name = Some gid)))
      \<and> authenticator_authorize authorizer gid a env = Inr result
      \<and> import_step app gid result s = (Inr (), s1)
      \<and> credential = result_credential result @ '':'' @ result_username result
      \<and> 1 < length (list_accounts credential s1)
    \<longrightarrow> (\<exists>f s2. authorize app a env s
                   = (Inl (AuthenticationError 300 ''multiple_accounts_attached'' f), s2)
            \<and> err_resolve_token f
                = Some \<lparr>rt_scopes = [''resolve_conflict''], rt_gamespace = gid,
                        rt_name = credential, rt_uuid = uuid_counter s1\<rparr>
            \<and> uuid_counter s2 = Suc (uuid_counter s1)
            \<and> (\<exists>summary. err_accounts f = Some (Summary summary)
                  \<and> map fst summary = list_accounts credential s1)
            \<and> links s2 = links s1 \<and> token_store s2 = token_store s1))
   \<and> (1 < length (list_accounts c w)
      \<and> (\<forall>cs. list_account_credentials (tk_account t) (Some [fst (parse_account c)]) w
                \<noteq> c # cs)
    \<longrightarrow> (\<exists>f. merge_accounts app t c resolve g w
                = (Inl (AuthenticationError 409 ''multiple_accounts_attached'' f), w)
            \<and> err_resolve_token f = None \<and> err_accounts f = None))"
proof (intro conjI impI)
  assume h: "a ''credential'' = Some cred_type \<and> a ''scopes'' = Some scopes_argument
      \<and> a ''attach_to'' = None \<and> credential_types app cred_type = Some authorizer
      \<and> ((a ''gamespace_id'' = Some gid \<and> gid \<noteq> [])
           \<or> (\<not> truthy (a ''gamespace_id'')
                \<and> (\<exists>name. a ''gamespace'' = Some name \<and> find_gamespace app name = Some gid)))
      \<and> authenticator_authorize authorizer gid a env = Inr result
      \<and> import_step app gid result s = (Inr (), s1)
      \<and> credential = result_credential result @ '':'' @ result_username result
      \<and> 1 < length (list_accounts credential s1)"
  then have sel: "authorize app a env s =
           (case select_account app None credential gid s1 of
              (Inl e, s2) \<Rightarrow> (Inl e, s2)
            | (Inr account, s2) \<Rightarrow>
                proceed_authentication app account credential gid
                  (parse_scopes app scopes_argument) a env s2)"
    using authorize_selects [of a cred_type scopes_argument app authorizer gid env result s s1]
    by blast
  from h have many: "1 < length (list_accounts credential s1)" by blast
  obtain f s2 where
    m: "multiple_accounts_attached app gid credential (list_accounts credential s1) s1
          = (AuthenticationError 300 ''multiple_accounts_attached'' f, s2)"
    and f: "err_resolve_token f = Some \<lparr>rt_scopes = [''resolve_conflict''], rt_gamespace = gid,
                                        rt_name = credential, rt_uuid = uuid_counter s1\<rparr>"
           "\<exists>summary. err_accounts f = Some (Summary summary)
               \<and> map fst summary = list_accounts credential s1"
           "uuid_counter s2 = Suc (uuid_counter s1)"
           "links s2 = links s1" "token_store s2 = token_store s1"
    using multiple_accounts_attached_raises
            [of app gid credential "list_accounts credential s1" s1]
    by blast
  have "authorize app a env s
          = (Inl (AuthenticationError 300 ''multiple_accounts_attached'' f), s2)"
    by (simp add: sel select_account_many [OF many] m)
  with f show "\<exists>f s2. authorize app a env s
                   = (Inl (AuthenticationError 300 ''multiple_accounts_attached'' f), s2)
            \<and> err_resolve_token f
                = Some \<lparr>rt_scopes = [''resolve_conflict''], rt_gamespace = gid,
                        rt_name = credential, rt_uuid = uuid_counter s1\<rparr>
            \<and> uuid_counter s2 = Suc (uuid_counter s1)
            \<and> (\<exists>summary. err_accounts f = Some (Summary summary)
                  \<and> map fst summary = list_accounts credential s1)
            \<and> links s2 = links s1 \<and> token_store s2 = token_store s1"
    by blast
next
  assume "1 < length (list_accounts c w)
      \<and> (\<forall>cs. list_account_credentials (tk_account t) (Some [fst (parse_account c)]) w
                \<noteq> c # cs)"
  then have "merge_accounts app t c resolve g w
           = (Inl (AuthenticationError 409 ''multiple_accounts_attached''
                     (multiple_accounts_info c)), w)"
    using merge_accounts_many [of c w t app resolve g] by blast
  then show "\<exists>f. merge_accounts app t c resolve g w
                = (Inl (AuthenticationError 409 ''multiple_accounts_attached'' f), w)
            \<and> err_resolve_token f = None \<and> err_accounts f = None"
    by (simp add: multiple_accounts_info_def info_only_def no_fields_def)
qed

theorem multiple_accounts_attached_codes_witness:
  "list_accounts ''google:gg'' shared_google = [''7'', ''8'']
   \<and> (\<exists>f s2. authorize example_app request_google_gg [] shared_google
               = (Inl (AuthenticationError 300 ''multiple_accounts_attached'' f), s2)
          \<and> err_resolve_token f
              = Some \<lparr>rt_scopes = [''resolve_conflict''], rt_gamespace = ''1'',
                      rt_name = ''google:gg'', rt_uuid = 0\<rparr>
          \<and> links s2 = links shared_google)
   \<and> (\<exists>f. merge_accounts example_app token_google_a ''google:gg'' None ''1'' shared_google
            = (Inl (AuthenticationError 409 ''multiple_accounts_attached'' f), shared_google)
          \<and> err_resolve_token f = None)"
proof -
  define result where
    "result = \<lparr>result_credential = ''google'', result_username = ''gg'',
               result_response = None\<rparr>"
  have accounts: "list_accounts ''google:gg'' shared_google = [''7'', ''8'']"
    by (simp add: list_accounts_def shared_google_def empty_world_def)
  have counter: "uuid_counter shared_google = 0"
    by (simp add: shared_google_def empty_world_def)
  have first: "request_google_gg ''credential'' = Some ''google''
      \<and> request_google_gg ''scopes'' = Some ''profile''
      \<and> request_google_gg ''attach_to'' = None
      \<and> credential_types example_app ''google'' = Some (example_authenticator ''google'' False)
      \<and> ((request_google_gg ''gamespace_id'' = Some ''1'' \<and> ''1'' \<noteq> [])
           \<or> (\<not> truthy (request_google_gg ''gamespace_id'')
                \<and> (\<exists>name. request_google_gg ''gamespace'' = Some name
                      \<and> find_gamespace example_app name = Some ''1'')))
      \<and> authenticator_authorize (example_authenticator ''google'' False) ''1''
            request_google_gg [] = Inr result
      \<and> import_step example_app ''1'' result shared_google = (Inr (), shared_google)
      \<and> ''google:gg'' = result_credential result @ '':'' @ result_username result
      \<and> 1 < length (list_accounts ''google:gg'' shared_google)"
    by (simp add: accounts request_google_gg_def example_app_def example_authenticator_def
          import_step_def truthy_def result_def)
  have many: "1 < length (list_accounts ''google:gg'' shared_google)"
    by (simp add: accounts)
  have other: "\<forall>cs. list_account_credentials (tk_account token_google_a)
                 (Some [fst (parse_account ''google:gg'')]) shared_google \<noteq> ''google:gg'' # cs"
    by (simp add: list_account_credentials_def token_google_a_def shared_google_def
          empty_world_def)
  note codes = multiple_accounts_attached_codes
      [where a = request_google_gg and cred_type = "''google''"
         and scopes_argument = "''profile''" and app = example_app
         and authorizer = "example_authenticator ''google'' False" and gid = "''1''"
         and env = "[]" and result = result and s = shared_google and ?s1.0 = shared_google
         and credential = "''google:gg''" and c = "''google:gg''" and w = shared_google
         and t = token_google_a and resolve = None and g = "''1''"]
  show ?thesis
    using codes first many other accounts counter by auto
qed

section \<open>Resolving \<^verbatim>\<open>multiple_accounts_attached\<close>\<close>

lemma distinct_list_accounts:
  "distinct (links s) \<Longrightarrow> distinct (list_accounts c s)"
  by (auto simp: list_accounts_def distinct_map inj_on_def)

lemma links_foldl_detach:
  "links (foldl (\<lambda>w other. detach c other w) s others)
     = filter (\<lambda>l. \<not> (fst l = c \<and> snd l \<in> set others)) (links s)"
proof (induction others arbitrary: s)
  case Nil
  then show ?case by simp
next
  case (Cons x xs)
  have "links (foldl (\<lambda>w other. detach c other w) s (x # xs))
          = filter (\<lambda>l. \<not> (fst l = c \<and> snd l \<in> set xs)) (links (detach c x s))"
    by (simp add: Cons.IH)
  also have "\<dots> = filter (\<lambda>l. \<not> (fst l = c \<and> snd l \<in> set (x # xs))) (links s)"
    unfolding detach_def by (simp, rule filter_cong) auto
  finally show ?case .
qed

lemma filter_eq_single: "distinct xs \<Longrightarrow> r \<in> set xs \<Longrightarrow> filter (\<lambda>a. a = r) xs = [r]"
  by (induction xs) (auto simp: filter_empty_conv)

lemma filter_only:
  assumes d: "distinct xs" and r: "r \<in> set xs"
  shows "filter (\<lambda>a. a \<notin> set (remove1 r xs)) xs = [r]"
proof -
  have "filter (\<lambda>a. a \<notin> set (remove1 r xs)) xs = filter (\<lambda>a. a = r) xs"
    by (rule filter_cong) (use d in auto)
  then show ?thesis
    using filter_eq_single [OF d r] by simp
qed

lemma list_accounts_foldl_detach:
  "list_accounts c (foldl (\<lambda>w other. detach c other w) s others)
     = filter (\<lambda>a. a \<notin> set others) (list_accounts c s)"
  by (simp add: list_accounts_def links_foldl_detach filter_map comp_def,
      rule arg_cong [where f = "map snd"], rule filter_cong) auto

lemma other_links_foldl_detach:
  "filter (\<lambda>l. fst l \<noteq> c) (links (foldl (\<lambda>w other. detach c other w) s others))
     = filter (\<lambda>l. fst l \<noteq> c) (links s)"
  by (simp add: links_foldl_detach, rule filter_cong) auto

text \<open>
  C7. \<open>resolve_conflict\<close> with the method \<^verbatim>\<open>multiple_accounts_attached\<close>, on a resolve
  token for the credential \<open>rt_name tk\<close>, with the required arguments \<^verbatim>\<open>resolve_with\<close> and
  \<^verbatim>\<open>scopes\<close>, on a store whose links are pairwise different (the primary key of
  \<^verbatim>\<open>account_credentials\<close>). If \<^verbatim>\<open>resolve_with\<close> is not among the accounts linked to the
  credential, the call fails with \<^verbatim>\<open>cannot_resolve_conflict\<close> and the state is unchanged.
  Otherwise the credential is afterwards linked to \<^verbatim>\<open>resolve_with\<close> only, the links of
  other credentials are unchanged, and the call continues as \<open>proceed_authentication\<close>
  for the account \<^verbatim>\<open>resolve_with\<close>.
\<close>

theorem resolve_multiple_accounts_attached_keeps_selected:
  assumes "a ''resolve_with'' = Some resolve_with"
      and "a ''scopes'' = Some scopes_argument"
      and "distinct (links s)"
  shows "(resolve_with \<notin> set (list_accounts (rt_name tk) s) \<longrightarrow>
            (\<exists>f. resolve_conflict app tk ''multiple_accounts_attached'' a env s
                   = (Inl (AuthenticationError 400 ''cannot_resolve_conflict'' f), s)))
       \<and> (resolve_with \<in> set (list_accounts (rt_name tk) s) \<longrightarrow>
            (\<exists>s1. resolve_multiple_accounts_attached (rt_name tk) a s = (Inr resolve_with, s1)
               \<and> list_accounts (rt_name tk) s1 = [resolve_with]
               \<and> filter (\<lambda>l. fst l \<noteq> rt_name tk) (links s1)
                   = filter (\<lambda>l. fst l \<noteq> rt_name tk) (links s)
               \<and> resolve_conflict app tk ''multiple_accounts_attached'' a env s
                   = proceed_authentication app resolve_with (rt_name tk) (rt_gamespace tk)
                       (parse_scopes app scopes_argument) a env
                       (log (Log_debug ''Resolved with'') s1)))"
proof (intro conjI impI)
  assume "resolve_with \<notin> set (list_accounts (rt_name tk) s)"
  then show "\<exists>f. resolve_conflict app tk ''multiple_accounts_attached'' a env s
                   = (Inl (AuthenticationError 400 ''cannot_resolve_conflict'' f), s)"
    using assms(1,2)
    by (simp add: resolve_conflict_def resolve_multiple_accounts_attached_def Let_def)
next
  assume member: "resolve_with \<in> set (list_accounts (rt_name tk) s)"
  define s1 where
    "s1 = foldl (\<lambda>w other_account. detach (rt_name tk) other_account w) s
            (remove1 resolve_with (list_accounts (rt_name tk) s))"
  have inner: "resolve_multiple_accounts_attached (rt_name tk) a s = (Inr resolve_with, s1)"
    using member assms(1)
    by (simp add: resolve_multiple_accounts_attached_def Let_def s1_def)
  have only: "list_accounts (rt_name tk) s1 = [resolve_with]"
    unfolding s1_def list_accounts_foldl_detach
    using filter_only [OF distinct_list_accounts [OF assms(3)] member] .
  have others: "filter (\<lambda>l. fst l \<noteq> rt_name tk) (links s1)
                  = filter (\<lambda>l. fst l \<noteq> rt_name tk) (links s)"
    unfolding s1_def by (rule other_links_foldl_detach)
  have tail: "resolve_conflict app tk ''multiple_accounts_attached'' a env s
                = proceed_authentication app resolve_with (rt_name tk) (rt_gamespace tk)
                    (parse_scopes app scopes_argument) a env
                    (log (Log_debug ''Resolved with'') s1)"
    using assms(1,2) by (simp add: resolve_conflict_def Let_def inner)
  from inner only others tail
  show "\<exists>s1. resolve_multiple_accounts_attached (rt_name tk) a s = (Inr resolve_with, s1)
               \<and> list_accounts (rt_name tk) s1 = [resolve_with]
               \<and> filter (\<lambda>l. fst l \<noteq> rt_name tk) (links s1)
                   = filter (\<lambda>l. fst l \<noteq> rt_name tk) (links s)
               \<and> resolve_conflict app tk ''multiple_accounts_attached'' a env s
                   = proceed_authentication app resolve_with (rt_name tk) (rt_gamespace tk)
                       (parse_scopes app scopes_argument) a env
                       (log (Log_debug ''Resolved with'') s1)"
    by blast
qed

theorem resolve_multiple_accounts_attached_keeps_selected_witness:
  "request_keep_7 ''resolve_with'' = Some ''7''
   \<and> distinct (links shared_google)
   \<and> ''7'' \<in> set (list_accounts ''google:gg'' shared_google)
   \<and> ''3'' \<notin> set (list_accounts ''google:gg'' shared_google)
   \<and> (\<exists>s1. resolve_multiple_accounts_attached ''google:gg'' request_keep_7 shared_google
              = (Inr ''7'', s1)
          \<and> list_accounts ''google:gg'' s1 = [''7'']
          \<and> resolve_conflict example_app resolve_token_gg ''multiple_accounts_attached''
               request_keep_7 [] shared_google
              = proceed_authentication example_app ''7'' ''google:gg'' ''1''
                  (parse_scopes example_app ''profile'') request_keep_7 []
                  (log (Log_debug ''Resolved with'') s1))"
proof -
  have selected: "request_keep_7 ''resolve_with'' = Some ''7''"
    by (simp add: request_keep_7_def)
  have scopes: "request_keep_7 ''scopes'' = Some ''profile''"
    by (simp add: request_keep_7_def)
  have links: "distinct (links shared_google)"
    by (simp add: shared_google_def empty_world_def)
  have accounts: "list_accounts ''google:gg'' shared_google = [''7'', ''8'']"
    by (simp add: list_accounts_def shared_google_def empty_world_def)
  have token: "rt_name resolve_token_gg = ''google:gg''" "rt_gamespace resolve_token_gg = ''1''"
    by (simp_all add: resolve_token_gg_def)
  show ?thesis
    using resolve_multiple_accounts_attached_keeps_selected
            [OF selected scopes links, of resolve_token_gg example_app "[]"]
          selected links
    by (auto simp: accounts token)
qed

section \<open>The tail \<^verbatim>\<open>proceed_authentication\<close>\<close>

lemma user_scopes_union:
  "get_gamespace_access_scopes app g = Some scopes_data \<Longrightarrow>
   user_scopes app g account
     = Inr ((case get_account_access app g account of None \<Rightarrow> {} | Some u \<Rightarrow> u)
            \<union> set (parse_scopes app scopes_data))"
  by (simp add: user_scopes_def)

lemma attach_social_profile_frame:
  "token_store (snd (attach_social_profile app au g ct un account env a s)) = token_store s
   \<and> uuid_counter (snd (attach_social_profile app au g ct un account env a s)) = uuid_counter s
   \<and> links (snd (attach_social_profile app au g ct un account env a s)) = links s"
  by (simp add: attach_social_profile_def log_def Let_def split: sum.splits rpc_failure.splits)


lemma update_info_argument_frame:
  "token_store (snd (update_info_argument app account a s)) = token_store s
   \<and> uuid_counter (snd (update_info_argument app account a s)) = uuid_counter s
   \<and> trace (snd (update_info_argument app account a s)) = trace s"
  by (simp add: update_info_argument_def update_account_info_def
        split: option.splits json.splits)

lemma update_info_argument_absent:
  "a ''info'' = None \<Longrightarrow> update_info_argument app account a s = (Inr (), s)"
  by (simp add: update_info_argument_def)

lemma sign_and_store_token:
  "auth_token (fst (sign_and_store app au account credential g auth_as pd unique allowed s))
     = \<lparr>tk_scopes = allowed, tk_account = account, tk_gamespace = g,
        tk_issuer = (if unique then Some ''login'' else None), tk_name = credential,
        tk_uuid = uuid_counter s\<rparr>
   \<and> auth_scopes (fst (sign_and_store app au account credential g auth_as pd unique allowed s))
       = allowed
   \<and> auth_account (fst (sign_and_store app au account credential g auth_as pd unique allowed s))
       = account"
  by (simp add: sign_and_store_def generate_access_token_def Let_def)

lemma sign_and_store_state:
  "token_store (snd (sign_and_store app au account credential g auth_as pd unique allowed s))
     = (if unique then token_store (save_token account (uuid_counter s) auth_as s)
        else token_store s)
   \<and> uuid_counter (snd (sign_and_store app au account credential g auth_as pd unique allowed s))
       = Suc (uuid_counter s)"
  by (simp add: sign_and_store_def generate_access_token_def Let_def log_def save_token_def
        split: option.splits rpc_failure.splits)


lemma proceed_authentication_checked:
  assumes "\<not> (truthy (a ''as'') \<and> \<not> validate_token_name app (the (a ''as'')))"
      and "credential_types app (fst (parse_account credential)) = Some au"
      and "user_scopes app g account = Inr U"
  shows "proceed_authentication app account credential g requested a env s =
     (case resolve_scopes app credential requested a U of
        Inl e \<Rightarrow>
          (Inl e, snd (attach_social_profile app au g (fst (parse_account credential))
                         (snd (parse_account credential)) account env a s))
      | Inr ua \<Rightarrow>
          (case update_info_argument app account a
                  (snd (attach_social_profile app au g (fst (parse_account credential))
                          (snd (parse_account credential)) account env a s)) of
             (Inl e, s2) \<Rightarrow> (Inl e, s2)
           | (Inr u, s2) \<Rightarrow>
               (Inr (fst (sign_and_store app au account credential g (a ''as'')
                            (fst (attach_social_profile app au g (fst (parse_account credential))
                                    (snd (parse_account credential)) account env a s))
                            (fst ua) (snd ua) s2)),
                snd (sign_and_store app au account credential g (a ''as'')
                       (fst (attach_social_profile app au g (fst (parse_account credential))
                               (snd (parse_account credential)) account env a s))
                       (fst ua) (snd ua) s2))))"
  using assms
  by (auto simp: proceed_authentication_def Let_def split_beta
        split: sum.splits prod.splits)


lemma resolve_scopes_restricted:
  "is_auth_error 403 ''scope_restricted'' (resolve_scopes app credential requested a U)
     \<longleftrightarrow> (\<exists>scope\<in>set requested. scope \<notin> U \<and> have_scope app a scope)"
proof (cases "find (\<lambda>scope. scope \<notin> U \<and> have_scope app a scope) requested")
  case None
  then have "\<not> (\<exists>scope\<in>set requested. scope \<notin> U \<and> have_scope app a scope)"
    by (auto simp: find_None_iff)
  with None show ?thesis
    by (simp add: resolve_scopes_def is_auth_error_def)
next
  case (Some scope)
  then have "\<exists>scope\<in>set requested. scope \<notin> U \<and> have_scope app a scope"
    by (auto simp: find_Some_iff)
  with Some show ?thesis
    by (simp add: resolve_scopes_def is_auth_error_def)
qed

lemma resolve_scopes_allowed:
  "resolve_scopes app credential requested a U = Inr (unique, allowed) \<Longrightarrow>
     allowed = set requested \<inter> U \<and> (unique \<longleftrightarrow> a ''unique'' \<noteq> Some ''false'')"
  by (auto simp: resolve_scopes_def get_default_def split: option.splits if_splits)

lemma resolve_scopes_unrestricted:
  assumes "\<forall>scope\<in>set requested. scope \<in> U \<or> \<not> have_scope app a scope"
  shows "resolve_scopes app credential requested a U =
     (if a ''unique'' = Some ''false'' then
        (if ''auth_non_unique'' \<notin> U then
           Inl (AuthenticationError 403 ''non_unique_token_restricted''
                  (no_fields\<lparr>err_credential := Some credential,
                              err_info := Some (''User '' @ [CHR 0x27] @ credential
                                @ [CHR 0x27] @ '' has no access to disable unique ''
                                @ ''tokens (scope '' @ [CHR 0x27] @ ''auth_non_unique''
                                @ [CHR 0x27] @ '' is required).'')\<rparr>))
         else Inr (False, set requested \<inter> U))
      else Inr (True, set requested \<inter> U))"
proof -
  have "find (\<lambda>scope. scope \<notin> U \<and> have_scope app a scope) requested = None"
    using assms by (auto simp: find_None_iff)
  then show ?thesis
    by (auto simp: resolve_scopes_def get_default_def split: option.splits)
qed

lemma update_info_argument_error:
  "update_info_argument app account a s = (Inl e, s2) \<Longrightarrow>
     \<not> is_auth_error 403 ''scope_restricted'' (Inl e :: error + authentication)"
  by (auto simp: update_info_argument_def update_account_info_def is_auth_error_def
        split: option.splits json.splits if_splits)

text \<open>
  C5. In \<open>proceed_authentication\<close>, once the name \<^verbatim>\<open>as\<close> is accepted, the credential type
  is registered and the gamespace has its scopes, with \<open>U\<close> the union of the scopes of the
  user and of the gamespace: the call fails with \<^verbatim>\<open>scope_restricted\<close> iff some requested
  scope is not in \<open>U\<close> and \<^verbatim>\<open>should_have\<close> is \<^verbatim>\<open>*\<close> (the default) or lists that scope;
  and whenever the call succeeds, the scopes of the token and of the reply are the requested
  scopes intersected with \<open>U\<close>, so any other requested scope outside \<open>U\<close> was dropped.
\<close>

theorem requested_scopes_resolution:
  assumes "\<not> (truthy (a ''as'') \<and> \<not> validate_token_name app (the (a ''as'')))"
      and "credential_types app (fst (parse_account credential)) = Some au"
      and "get_gamespace_access_scopes app g = Some scopes_data"
      and "U = (case get_account_access app g account of None \<Rightarrow> {} | Some u \<Rightarrow> u)
                 \<union> set (parse_scopes app scopes_data)"
      and "should_have = get_default a ''should_have'' ''*''"
  shows "(is_auth_error 403 ''scope_restricted''
            (fst (proceed_authentication app account credential g requested a env s))
          \<longleftrightarrow> (\<exists>scope\<in>set requested. scope \<notin> U
                 \<and> (should_have = ''*'' \<or> scope \<in> set (parse_scopes app should_have))))
       \<and> (\<forall>reply s'. proceed_authentication app account credential g requested a env s
                        = (Inr reply, s')
            \<longrightarrow> tk_scopes (auth_token reply) = set requested \<inter> U
              \<and> auth_scopes reply = set requested \<inter> U)"
proof -
  have us: "user_scopes app g account = Inr U"
    using user_scopes_union [OF assms(3)] assms(4) by simp
  note run = proceed_authentication_checked
      [where a = a and app = app and credential = credential and au = au and g = g
         and account = account and U = U and requested = requested and env = env and s = s,
       OF assms(1,2) us]
  have hs: "\<And>scope. have_scope app a scope
              \<longleftrightarrow> (should_have = ''*'' \<or> scope \<in> set (parse_scopes app should_have))"
    using assms(5) by (simp add: have_scope_def Let_def)
  have "is_auth_error 403 ''scope_restricted''
          (fst (proceed_authentication app account credential g requested a env s))
        \<longleftrightarrow> is_auth_error 403 ''scope_restricted''
              (resolve_scopes app credential requested a U)"
  proof (cases "resolve_scopes app credential requested a U")
    case (Inl e)
    then show ?thesis by (simp add: run is_auth_error_def)
  next
    case (Inr ua)
    then show ?thesis
      by (auto simp: run is_auth_error_def split: prod.splits sum.splits
            dest: update_info_argument_error)
  qed
  then have first: "is_auth_error 403 ''scope_restricted''
            (fst (proceed_authentication app account credential g requested a env s))
          \<longleftrightarrow> (\<exists>scope\<in>set requested. scope \<notin> U
                 \<and> (should_have = ''*'' \<or> scope \<in> set (parse_scopes app should_have)))"
    by (simp add: resolve_scopes_restricted hs)
  have second: "\<forall>reply s'. proceed_authentication app account credential g requested a env s
                        = (Inr reply, s')
            \<longrightarrow> tk_scopes (auth_token reply) = set requested \<inter> U
              \<and> auth_scopes reply = set requested \<inter> U"
  proof (intro allI impI)
    fix reply s'
    assume ok: "proceed_authentication app account credential g requested a env s
                  = (Inr reply, s')"
    then obtain unique allowed where
      rs: "resolve_scopes app credential requested a U = Inr (unique, allowed)"
      by (cases "resolve_scopes app credential requested a U") (auto simp: run)
    from ok rs show "tk_scopes (auth_token reply) = set requested \<inter> U
              \<and> auth_scopes reply = set requested \<inter> U"
      using resolve_scopes_allowed [OF rs]
      by (auto simp: run sign_and_store_token split: prod.splits sum.splits)
  qed
  from first second show ?thesis by blast
qed


lemma save_token_member:
  "(account, system_name nm, u) \<in> set (token_store (save_token account u nm s))"
  by (simp add: save_token_def)

text \<open>
  C6. In \<open>proceed_authentication\<close>, past the checks of C5 and with no requested scope
  restricted: if \<^verbatim>\<open>unique\<close> is the string \<^verbatim>\<open>false\<close> and \<open>U\<close> lacks \<^verbatim>\<open>auth_non_unique\<close>,
  the call fails with \<^verbatim>\<open>non_unique_token_restricted\<close>, no uuid is drawn and the token
  store is unchanged. Whenever the call succeeds, a token with a fresh uuid is minted; it
  carries the issuer \<^verbatim>\<open>login\<close> iff \<^verbatim>\<open>unique\<close> is not the string \<^verbatim>\<open>false\<close>; with
  \<^verbatim>\<open>unique = "false"\<close> the token store is unchanged; otherwise the token store is the one
  \<open>save_token\<close> gives for the account, the uuid of the token and the argument \<^verbatim>\<open>as\<close>. The
  call does succeed when there is no \<^verbatim>\<open>info\<close> argument and the scope is there if needed.
\<close>

theorem unique_argument_decides_storage:
  assumes "\<not> (truthy (a ''as'') \<and> \<not> validate_token_name app (the (a ''as'')))"
      and "credential_types app (fst (parse_account credential)) = Some au"
      and "get_gamespace_access_scopes app g = Some scopes_data"
      and "U = (case get_account_access app g account of None \<Rightarrow> {} | Some u \<Rightarrow> u)
                 \<union> set (parse_scopes app scopes_data)"
      and "\<forall>scope\<in>set requested. scope \<in> U \<or> \<not> have_scope app a scope"
  shows "(a ''unique'' = Some ''false'' \<and> ''auth_non_unique'' \<notin> U \<longrightarrow>
            (\<exists>f s'. proceed_authentication app account credential g requested a env s
                       = (Inl (AuthenticationError 403 ''non_unique_token_restricted'' f), s')
                \<and> token_store s' = token_store s \<and> uuid_counter s' = uuid_counter s))
       \<and> (\<forall>reply s'. proceed_authentication app account credential g requested a env s
                        = (Inr reply, s') \<longrightarrow>
            tk_uuid (auth_token reply) = uuid_counter s
            \<and> uuid_counter s' = Suc (uuid_counter s)
            \<and> (tk_issuer (auth_token reply) = Some ''login'' \<longleftrightarrow> a ''unique'' \<noteq> Some ''false'')
            \<and> (a ''unique'' = Some ''false'' \<longrightarrow>
                  tk_issuer (auth_token reply) = None \<and> token_store s' = token_store s)
            \<and> (a ''unique'' \<noteq> Some ''false'' \<longrightarrow>
                  token_store s'
                    = token_store (save_token account (tk_uuid (auth_token reply)) (a ''as'') s)
                  \<and> (account, system_name (a ''as''), tk_uuid (auth_token reply))
                      \<in> set (token_store s')))
       \<and> (a ''info'' = None \<and> (a ''unique'' = Some ''false'' \<longrightarrow> ''auth_non_unique'' \<in> U) \<longrightarrow>
            (\<exists>reply s'. proceed_authentication app account credential g requested a env s
                          = (Inr reply, s')))"
proof -
  have us: "user_scopes app g account = Inr U"
    using user_scopes_union [OF assms(3)] assms(4) by simp
  note run = proceed_authentication_checked
      [where a = a and app = app and credential = credential and au = au and g = g
         and account = account and U = U and requested = requested and env = env and s = s,
       OF assms(1,2) us]
  note rs = resolve_scopes_unrestricted [OF assms(5), of credential]
  define s1 where
    "s1 = snd (attach_social_profile app au g (fst (parse_account credential))
                 (snd (parse_account credential)) account env a s)"
  define pd where
    "pd = fst (attach_social_profile app au g (fst (parse_account credential))
                 (snd (parse_account credential)) account env a s)"
  have s1: "token_store s1 = token_store s" "uuid_counter s1 = uuid_counter s"
    by (simp_all add: s1_def attach_social_profile_frame)
  have first: "a ''unique'' = Some ''false'' \<and> ''auth_non_unique'' \<notin> U \<longrightarrow>
            (\<exists>f s'. proceed_authentication app account credential g requested a env s
                       = (Inl (AuthenticationError 403 ''non_unique_token_restricted'' f), s')
                \<and> token_store s' = token_store s \<and> uuid_counter s' = uuid_counter s)"
    using s1 by (simp add: run rs s1_def)
  have second: "\<forall>reply s'. proceed_authentication app account credential g requested a env s
                        = (Inr reply, s') \<longrightarrow>
            tk_uuid (auth_token reply) = uuid_counter s
            \<and> uuid_counter s' = Suc (uuid_counter s)
            \<and> (tk_issuer (auth_token reply) = Some ''login'' \<longleftrightarrow> a ''unique'' \<noteq> Some ''false'')
            \<and> (a ''unique'' = Some ''false'' \<longrightarrow>
                  tk_issuer (auth_token reply) = None \<and> token_store s' = token_store s)
            \<and> (a ''unique'' \<noteq> Some ''false'' \<longrightarrow>
                  token_store s'
                    = token_store (save_token account (tk_uuid (auth_token reply)) (a ''as'') s)
                  \<and> (account, system_name (a ''as''), tk_uuid (auth_token reply))
                      \<in> set (token_store s'))"
  proof (intro allI impI)
    fix reply s'
    assume ok: "proceed_authentication app account credential g requested a env s
                  = (Inr reply, s')"
    define unique where "unique = (a ''unique'' \<noteq> Some ''false'')"
    have res: "resolve_scopes app credential requested a U = Inr (unique, set requested \<inter> U)"
      using ok by (auto simp: run rs unique_def split: if_splits)
    obtain u s2 where ui: "update_info_argument app account a s1 = (Inr u, s2)"
      using ok by (auto simp: run res s1_def split: prod.splits sum.splits)
    have s2: "token_store s2 = token_store s" "uuid_counter s2 = uuid_counter s"
      using update_info_argument_frame [of app account a s1] ui s1 by simp_all
    have reply: "reply = fst (sign_and_store app au account credential g (a ''as'') pd
                                unique (set requested \<inter> U) s2)"
      and state: "s' = snd (sign_and_store app au account credential g (a ''as'') pd
                              unique (set requested \<inter> U) s2)"
      using ok ui by (simp_all add: run res s1_def [symmetric] pd_def [symmetric])
    have tok: "tk_uuid (auth_token reply) = uuid_counter s"
      "tk_issuer (auth_token reply) = (if unique then Some ''login'' else None)"
      by (simp_all add: reply sign_and_store_token s2)
    have st: "uuid_counter s' = Suc (uuid_counter s)"
      "token_store s' = (if unique then token_store (save_token account (uuid_counter s)
                                                      (a ''as'') s2)
                         else token_store s)"
      by (simp_all add: state sign_and_store_state s2)
    have sv: "token_store (save_token account (uuid_counter s) (a ''as'') s2)
                = token_store (save_token account (uuid_counter s) (a ''as'') s)"
      by (simp add: save_token_def s2)
    show "tk_uuid (auth_token reply) = uuid_counter s
            \<and> uuid_counter s' = Suc (uuid_counter s)
            \<and> (tk_issuer (auth_token reply) = Some ''login'' \<longleftrightarrow> a ''unique'' \<noteq> Some ''false'')
            \<and> (a ''unique'' = Some ''false'' \<longrightarrow>
                  tk_issuer (auth_token reply) = None \<and> token_store s' = token_store s)
            \<and> (a ''unique'' \<noteq> Some ''false'' \<longrightarrow>
                  token_store s'
                    = token_store (save_token account (tk_uuid (auth_token reply)) (a ''as'') s)
                  \<and> (account, system_name (a ''as''), tk_uuid (auth_token reply))
                      \<in> set (token_store s'))"
      using tok st sv save_token_member [of account "a ''as''" "uuid_counter s" s]
      by (auto simp: unique_def)
  qed
  have third: "a ''info'' = None \<and> (a ''unique'' = Some ''false'' \<longrightarrow> ''auth_non_unique'' \<in> U) \<longrightarrow>
            (\<exists>reply s'. proceed_authentication app account credential g requested a env s
                          = (Inr reply, s'))"
    by (auto simp: run rs update_info_argument_absent)
  from first second third show ?thesis by blast
qed












lemma steam_type:
  "credential_types example_app (fst (parse_account ''steam:s1''))
     = Some (example_authenticator ''steam'' True)"
  by (simp add: example_app_def parse_account_def)

lemma anonymous_type:
  "credential_types example_app (fst (parse_account ''anonymous:u9''))
     = Some (example_authenticator ''anonymous'' False)"
  by (simp add: example_app_def parse_account_def)

lemma example_gamespace_scopes: "get_gamespace_access_scopes example_app ''1'' = Some ''profile''"
  by (simp add: example_app_def)

lemma example_parse_profile: "parse_scopes example_app ''profile'' = [''profile'']"
  by (simp add: example_app_def split_commas_def)

theorem requested_scopes_resolution_witness:
  "get_gamespace_access_scopes example_app ''1'' = Some ''profile''
   \<and> get_default request_should_have ''should_have'' ''*'' = ''profile''
   \<and> (\<exists>reply s'. proceed_authentication example_app ''2'' ''steam:s1'' ''1''
                    [''profile'', ''admin''] request_should_have [] steam_player = (Inr reply, s')
          \<and> tk_scopes (auth_token reply) = {''profile''}
          \<and> auth_scopes reply = {''profile''})
   \<and> \<not> is_auth_error 403 ''scope_restricted''
          (fst (proceed_authentication example_app ''2'' ''steam:s1'' ''1''
                  [''profile'', ''admin''] request_should_have [] steam_player))"
proof -
  have name: "\<not> (truthy (request_should_have ''as'')
                  \<and> \<not> validate_token_name example_app (the (request_should_have ''as'')))"
    by (simp add: request_should_have_def truthy_def)
  have union: "{''profile''} = (case get_account_access example_app ''1'' ''2'' of
                                  None \<Rightarrow> {} | Some u \<Rightarrow> u)
                               \<union> set (parse_scopes example_app ''profile'')"
    by (simp add: example_parse_profile) (simp add: example_app_def)
  have should: "''profile'' = get_default request_should_have ''should_have'' ''*''"
    by (simp add: request_should_have_def get_default_def)
  have "fst (proceed_authentication example_app ''2'' ''steam:s1'' ''1''
               [''profile'', ''admin''] request_should_have [] steam_player)
     = Inr \<lparr>auth_token = \<lparr>tk_scopes = {''profile''}, tk_account = ''2'', tk_gamespace = ''1'',
              tk_issuer = Some ''login'', tk_name = ''steam:s1'', tk_uuid = 0\<rparr>,
            auth_account = ''2'', auth_credential = ''steam:s1'', auth_scopes = {''profile''}\<rparr>"
    by code_simp
  then obtain reply s' where
    run: "proceed_authentication example_app ''2'' ''steam:s1'' ''1''
            [''profile'', ''admin''] request_should_have [] steam_player = (Inr reply, s')"
    by (cases "proceed_authentication example_app ''2'' ''steam:s1'' ''1''
                 [''profile'', ''admin''] request_should_have [] steam_player") auto
  note resolution = requested_scopes_resolution
      [where a = request_should_have and app = example_app
         and credential = "''steam:s1''" and au = "example_authenticator ''steam'' True"
         and g = "''1''" and scopes_data = "''profile''" and U = "{''profile''}"
         and account = "''2''" and should_have = "''profile''"
         and requested = "[''profile'', ''admin'']" and env = "[]" and s = steam_player,
       OF name steam_type example_gamespace_scopes union should]
  have scopes: "tk_scopes (auth_token reply) = {''profile''}" "auth_scopes reply = {''profile''}"
    using resolution run by auto
  have free: "\<not> is_auth_error 403 ''scope_restricted''
          (fst (proceed_authentication example_app ''2'' ''steam:s1'' ''1''
                  [''profile'', ''admin''] request_should_have [] steam_player))"
    using resolution by (simp add: example_parse_profile)
  from run scopes free example_gamespace_scopes should show ?thesis
    by auto
qed

theorem unique_argument_decides_storage_witness:
  "(\<exists>reply s'. proceed_authentication example_app ''9'' ''anonymous:u9'' ''1'' [''profile'']
                  request_non_unique [] steam_player = (Inr reply, s')
        \<and> tk_issuer (auth_token reply) = None
        \<and> token_store s' = token_store steam_player)
   \<and> (\<exists>f s'. proceed_authentication example_app ''2'' ''steam:s1'' ''1'' [''profile'']
                request_non_unique [] steam_player
                = (Inl (AuthenticationError 403 ''non_unique_token_restricted'' f), s')
        \<and> token_store s' = token_store steam_player
        \<and> uuid_counter s' = uuid_counter steam_player)"
proof -
  have name: "\<not> (truthy (request_non_unique ''as'')
                  \<and> \<not> validate_token_name example_app (the (request_non_unique ''as'')))"
    by (simp add: request_non_unique_def truthy_def)
  have flag: "request_non_unique ''unique'' = Some ''false''"
             "request_non_unique ''info'' = None"
    by (simp_all add: request_non_unique_def)
  have union9: "{''auth_non_unique'', ''profile''}
                  = (case get_account_access example_app ''1'' ''9'' of
                       None \<Rightarrow> {} | Some u \<Rightarrow> u)
                    \<union> set (parse_scopes example_app ''profile'')"
    by (simp add: example_parse_profile) (auto simp: example_app_def)
  have union2: "{''profile''} = (case get_account_access example_app ''1'' ''2'' of
                                   None \<Rightarrow> {} | Some u \<Rightarrow> u)
                                \<union> set (parse_scopes example_app ''profile'')"
    by (simp add: example_parse_profile) (simp add: example_app_def)
  have free9: "\<forall>scope\<in>set [''profile'']. scope \<in> {''auth_non_unique'', ''profile''}
                 \<or> \<not> have_scope example_app request_non_unique scope"
    by simp
  have free2: "\<forall>scope\<in>set [''profile'']. scope \<in> {''profile''}
                 \<or> \<not> have_scope example_app request_non_unique scope"
    by simp
  note holder = unique_argument_decides_storage
      [where a = request_non_unique and app = example_app
         and credential = "''anonymous:u9''"
         and au = "example_authenticator ''anonymous'' False"
         and g = "''1''" and scopes_data = "''profile''"
         and U = "{''auth_non_unique'', ''profile''}" and account = "''9''"
         and requested = "[''profile'']" and env = "[]" and s = steam_player,
       OF name anonymous_type example_gamespace_scopes union9 free9]
  note lacking = unique_argument_decides_storage
      [where a = request_non_unique and app = example_app
         and credential = "''steam:s1''" and au = "example_authenticator ''steam'' True"
         and g = "''1''" and scopes_data = "''profile''"
         and U = "{''profile''}" and account = "''2''"
         and requested = "[''profile'']" and env = "[]" and s = steam_player,
       OF name steam_type example_gamespace_scopes union2 free2]
  have first: "\<exists>reply s'. proceed_authentication example_app ''9'' ''anonymous:u9'' ''1''
                  [''profile''] request_non_unique [] steam_player = (Inr reply, s')
        \<and> tk_issuer (auth_token reply) = None
        \<and> token_store s' = token_store steam_player"
    using holder flag by fastforce
  have second: "\<exists>f s'. proceed_authentication example_app ''2'' ''steam:s1'' ''1'' [''profile'']
                request_non_unique [] steam_player
                = (Inl (AuthenticationError 403 ''non_unique_token_restricted'' f), s')
        \<and> token_store s' = token_store steam_player
        \<and> uuid_counter s' = uuid_counter steam_player"
    using lacking flag by simp
  from first second show ?thesis by blast
qed


end
